theory Spec2Isabelle
  imports Complex_Main "HOL-Library.Product_Lexorder"
begin

chapter \<open>The portfolio data job\<close>

text \<open>
  The script \<^verbatim>\<open>build_data.py\<close> downloads monthly closing prices for a fixed registry
  of symbols and for the benchmark SPY, turns every price series into a series of
  percentage returns, computes the pairwise correlations of these series and writes one
  JSON document. Its function \<^verbatim>\<open>main\<close> is modelled here as a function of the table
  that the download returns and of the date of the run; what it prints, what it writes
  and the code it exits with are the result. The operations of pandas, numpy and
  \<^verbatim>\<open>json\<close> that the script calls are modelled by what they compute, each where it is
  used; the three whose result depends on arithmetic inside the library are parameters
  of the model.
\<close>

section \<open>Numbers\<close>

text \<open>
  The script computes with Python floats and pandas float columns, which are binary64
  values. A finite value is modelled by the real number it holds; the other values a
  float column can hold are the two infinities and NaN (which pandas also uses for a
  missing observation). The sign of zero is not modelled.
\<close>

datatype fl = Fin real | PInf | NInf | NaN

fun isna :: "fl \<Rightarrow> bool" where
  "isna NaN = True"
| "isna _ = False"

definition notna :: "fl \<Rightarrow> bool" where
  "notna v = (\<not> isna v)"

text \<open>Rounding to the nearest integer, a tie going to the even neighbour.\<close>

definition round_half_even :: "real \<Rightarrow> int" where
  "round_half_even x =
     (let f = \<lfloor>x\<rfloor>; d = x - of_int f
      in if d < 1 / 2 then f
         else if 1 / 2 < d then f + 1
         else if even f then f else f + 1)"

text \<open>
  The binary64 value of a real number (IEEE 754, round to nearest, ties to even): the
  nearest multiple of the unit in the last place, which is \<open>2\<^sup>e\<^sup>-\<^sup>5\<^sup>2\<close> for a number
  between \<open>2\<^sup>e\<close> and \<open>2\<^sup>e\<^sup>+\<^sup>1\<close> and \<open>2\<^sup>-\<^sup>1\<^sup>0\<^sup>7\<^sup>4\<close> below \<open>2\<^sup>-\<^sup>1\<^sup>0\<^sup>2\<^sup>2\<close>; an infinity where
  that multiple reaches \<open>2\<^sup>1\<^sup>0\<^sup>2\<^sup>4\<close>.
\<close>

definition b64 :: "real \<Rightarrow> fl" where
  "b64 x =
     (if x = 0 then Fin 0
      else
        (let e = max \<lfloor>log 2 \<bar>x\<bar>\<rfloor> (- 1022);
             ulp = 2 powr (of_int e - 52);
             y = of_int (round_half_even (x / ulp)) * ulp
         in if 2 ^ 1024 \<le> \<bar>y\<bar> then (if 0 < x then PInf else NInf) else Fin y))"

text \<open>
  Division, subtraction and multiplication of floats: on finite values the exact result
  rounded to binary64, on the special values the IEEE rules.
\<close>

fun fdiv :: "fl \<Rightarrow> fl \<Rightarrow> fl" where
  "fdiv NaN _ = NaN"
| "fdiv _ NaN = NaN"
| "fdiv (Fin a) (Fin b) =
     (if b = 0 then (if a = 0 then NaN else if 0 < a then PInf else NInf)
      else b64 (a / b))"
| "fdiv (Fin a) _ = Fin 0"
| "fdiv PInf (Fin b) = (if 0 \<le> b then PInf else NInf)"
| "fdiv NInf (Fin b) = (if 0 \<le> b then NInf else PInf)"
| "fdiv _ _ = NaN"

fun fsub :: "fl \<Rightarrow> fl \<Rightarrow> fl" where
  "fsub NaN _ = NaN"
| "fsub _ NaN = NaN"
| "fsub (Fin a) (Fin b) = b64 (a - b)"
| "fsub (Fin a) PInf = NInf"
| "fsub (Fin a) NInf = PInf"
| "fsub PInf PInf = NaN"
| "fsub PInf _ = PInf"
| "fsub NInf NInf = NaN"
| "fsub NInf _ = NInf"

fun fmul :: "fl \<Rightarrow> fl \<Rightarrow> fl" where
  "fmul NaN _ = NaN"
| "fmul _ NaN = NaN"
| "fmul (Fin a) (Fin b) = b64 (a * b)"
| "fmul (Fin a) PInf = (if a = 0 then NaN else if 0 < a then PInf else NInf)"
| "fmul (Fin a) NInf = (if a = 0 then NaN else if 0 < a then NInf else PInf)"
| "fmul PInf (Fin b) = (if b = 0 then NaN else if 0 < b then PInf else NInf)"
| "fmul NInf (Fin b) = (if b = 0 then NaN else if 0 < b then NInf else PInf)"
| "fmul PInf PInf = PInf"
| "fmul NInf NInf = PInf"
| "fmul PInf NInf = NInf"
| "fmul NInf PInf = NInf"

text \<open>
  Python's \<^verbatim>\<open>round(x, n)\<close> on a float: the value the float holds is rounded to the
  nearest multiple of \<open>10\<^sup>-\<^sup>n\<close>, a tie going to the even neighbour, and the float
  nearest to that decimal number is returned; an infinity or NaN is returned unchanged.
\<close>

fun py_round :: "nat \<Rightarrow> fl \<Rightarrow> fl" where
  "py_round n (Fin x) = b64 (of_int (round_half_even (x * 10 ^ n)) / 10 ^ n)"
| "py_round n v = v"

section \<open>Periods and their labels\<close>

text \<open>
  A row label of the fetched table is a timestamp, of which the script uses the date
  only: (year, month, day). Years of a pandas timestamp lie between 1677 and 2262 and
  those of a Python \<^verbatim>\<open>datetime\<close> between 1 and 9999, so \<^verbatim>\<open>%Y\<close> and the ISO format
  print four digits.
\<close>

type_synonym stamp = "nat \<times> nat \<times> nat"

definition digit :: "nat \<Rightarrow> char" where
  "digit n = ''0123456789'' ! (n mod 10)"

definition pad2 :: "nat \<Rightarrow> string" where
  "pad2 n = [digit (n div 10), digit n]"

definition pad4 :: "nat \<Rightarrow> string" where
  "pad4 n = [digit (n div 1000), digit (n div 100), digit (n div 10), digit n]"

text \<open>\<^verbatim>\<open>d.strftime("%Y-%m")\<close>\<close>

fun strftime_ym :: "stamp \<Rightarrow> string" where
  "strftime_ym (y, m, d) = pad4 y @ ''-'' @ pad2 m"

text \<open>\<^verbatim>\<open>datetime.now().isoformat()[:10]\<close>\<close>

fun isoformat10 :: "stamp \<Rightarrow> string" where
  "isoformat10 (y, m, d) = pad4 y @ ''-'' @ pad2 m @ ''-'' @ pad2 d"

section \<open>The registry\<close>

definition TICKERS :: "(string \<times> string \<times> string) list" where
  "TICKERS =
   [(''AAPL'', ''Apple'', ''Technology''),
    (''MSFT'', ''Microsoft'', ''Technology''),
    (''GOOGL'', ''Alphabet'', ''Technology''),
    (''AMZN'', ''Amazon'', ''Technology''),
    (''TSLA'', ''Tesla'', ''Technology''),
    (''META'', ''Meta'', ''Technology''),
    (''NVDA'', ''NVIDIA'', ''Technology''),
    (''CRM'', ''Salesforce'', ''Technology''),
    (''AMD'', ''AMD'', ''Technology''),
    (''INTC'', ''Intel'', ''Technology''),
    (''ORCL'', ''Oracle'', ''Technology''),
    (''ADBE'', ''Adobe'', ''Technology''),
    (''JPM'', ''JPMorgan Chase'', ''Financials''),
    (''BAC'', ''Bank of America'', ''Financials''),
    (''GS'', ''Goldman Sachs'', ''Financials''),
    (''V'', ''Visa'', ''Financials''),
    (''MA'', ''Mastercard'', ''Financials''),
    (''BRK-B'', ''Berkshire Hathaway'', ''Financials''),
    (''JNJ'', ''Johnson & Johnson'', ''Healthcare''),
    (''PFE'', ''Pfizer'', ''Healthcare''),
    (''UNH'', ''UnitedHealth'', ''Healthcare''),
    (''LLY'', ''Eli Lilly'', ''Healthcare''),
    (''MRK'', ''Merck'', ''Healthcare''),
    (''ABBV'', ''AbbVie'', ''Healthcare''),
    (''XOM'', ''ExxonMobil'', ''Energy''),
    (''CVX'', ''Chevron'', ''Energy''),
    (''COP'', ''ConocoPhillips'', ''Energy''),
    (''DUK'', ''Duke Energy'', ''Utilities''),
    (''NEE'', ''NextEra Energy'', ''Utilities''),
    (''SO'', ''Southern Co'', ''Utilities''),
    (''AEP'', ''American Electric Power'', ''Utilities''),
    (''KO'', ''Coca-Cola'', ''Consumer Staples''),
    (''PEP'', ''PepsiCo'', ''Consumer Staples''),
    (''PG'', ''Procter & Gamble'', ''Consumer Staples''),
    (''WMT'', ''Walmart'', ''Consumer Staples''),
    (''COST'', ''Costco'', ''Consumer Staples''),
    (''MCD'', ''McDonald's'', ''Consumer Discretionary''),
    (''DIS'', ''Disney'', ''Consumer Discretionary''),
    (''NFLX'', ''Netflix'', ''Consumer Discretionary''),
    (''NKE'', ''Nike'', ''Consumer Discretionary''),
    (''SBUX'', ''Starbucks'', ''Consumer Discretionary''),
    (''HD'', ''Home Depot'', ''Consumer Discretionary''),
    (''LOW'', ''Lowe's'', ''Consumer Discretionary''),
    (''BA'', ''Boeing'', ''Industrials''),
    (''CAT'', ''Caterpillar'', ''Industrials''),
    (''GE'', ''GE Aerospace'', ''Industrials''),
    (''UPS'', ''UPS'', ''Industrials''),
    (''RTX'', ''RTX Corp'', ''Industrials''),
    (''AMT'', ''American Tower'', ''Real Estate''),
    (''PLD'', ''Prologis'', ''Real Estate''),
    (''T'', ''AT&T'', ''Communications''),
    (''VZ'', ''Verizon'', ''Communications''),
    (''TMUS'', ''T-Mobile'', ''Communications''),
    (''LIN'', ''Linde'', ''Materials''),
    (''APD'', ''Air Products'', ''Materials''),
    (''QQQ'', ''Nasdaq 100 ETF'', ''ETF''),
    (''IWM'', ''Russell 2000 ETF'', ''ETF''),
    (''GLD'', ''Gold ETF'', ''ETF''),
    (''TLT'', ''20+ Year Treasury ETF'', ''ETF''),
    (''BND'', ''Total Bond ETF'', ''ETF''),
    (''VNQ'', ''Real Estate ETF'', ''ETF''),
    (''XLE'', ''Energy Select ETF'', ''ETF'')]"

text \<open>\<^verbatim>\<open>ticker_list = list(TICKERS.keys())\<close>, \<^verbatim>\<open>all_tickers = ["SPY"] + ticker_list\<close>\<close>

definition ticker_list :: "string list" where
  "ticker_list = map fst TICKERS"

definition all_tickers :: "string list" where
  "all_tickers = ''SPY'' # ticker_list"

section \<open>Python dictionaries\<close>

text \<open>
  A \<^verbatim>\<open>dict\<close> keeps its keys in insertion order; assigning to a key that is present
  replaces the value where the key stands, assigning to a new key appends it.
\<close>

fun dict_set :: "('k \<times> 'v) list \<Rightarrow> 'k \<Rightarrow> 'v \<Rightarrow> ('k \<times> 'v) list" where
  "dict_set [] k v = [(k, v)]"
| "dict_set ((k', v') # kvs) k v =
     (if k' = k then (k, v) # kvs else (k', v') # dict_set kvs k v)"

section \<open>The fetched table and its series\<close>

text \<open>
  What \<^verbatim>\<open>yf.download\<close> returns: a table with one row per period and one column for
  every (field, symbol) pair, each column holding one cell per row. A cell holds a float,
  NaN where the observation is missing, or, in a column that is not numeric, a string.
  A series is a column read together with the row labels. The column labels of a
  downloaded table are distinct (a lookup reads the first column with the label), and so
  are its row labels; where a statement depends on the latter it says so.
\<close>

datatype cell = Num fl | Str string

record frame =
  index :: "stamp list"
  columns :: "((string \<times> string) \<times> cell list) list"

type_synonym series = "(stamp \<times> fl) list"

datatype exn = KeyError | TypeError

text \<open>\<^verbatim>\<open>df.empty\<close>: some axis of the table has length 0.\<close>

definition df_empty :: "frame \<Rightarrow> bool" where
  "df_empty df = (index df = [] \<or> columns df = [])"

text \<open>\<^verbatim>\<open>df["Close"][ticker]\<close>: a column that is not there raises \<^verbatim>\<open>KeyError\<close>.\<close>

definition getitem :: "frame \<Rightarrow> string \<Rightarrow> exn + (stamp \<times> cell) list" where
  "getitem df ticker =
     (case map_of (columns df) (''Close'', ticker) of
        None \<Rightarrow> Inl KeyError
      | Some cells \<Rightarrow> Inr (zip (index df) cells))"

text \<open>\<^verbatim>\<open>dropna()\<close> on a fetched column: the rows whose cell is missing are left out.\<close>

definition present :: "(stamp \<times> cell) list \<Rightarrow> (stamp \<times> cell) list" where
  "present col = filter (\<lambda>(d, c). c \<noteq> Num NaN) col"

text \<open>
  Arithmetic on a column: \<^verbatim>\<open>pct_change()\<close> divides cell by cell, and the division
  raises \<^verbatim>\<open>TypeError\<close> on a string. A column of floats is computed with as a series of
  floats.
\<close>

fun numbers :: "(stamp \<times> cell) list \<Rightarrow> exn + series" where
  "numbers [] = Inr []"
| "numbers ((d, Str s) # col) = Inl TypeError"
| "numbers ((d, Num v) # col) =
     (case numbers col of Inl e \<Rightarrow> Inl e | Inr vs \<Rightarrow> Inr ((d, v) # vs))"

text \<open>\<^verbatim>\<open>dropna()\<close> on a series of floats.\<close>

definition dropna :: "series \<Rightarrow> series" where
  "dropna s = filter (\<lambda>(d, v). notna v) s"

text \<open>
  \<^verbatim>\<open>pct_change()\<close> divides the series by itself shifted down one row and subtracts 1;
  the first row, which has nothing before it, is divided by NaN.
\<close>

definition shift1 :: "series \<Rightarrow> series" where
  "shift1 s = zip (map fst s) (NaN # map snd s)"

definition pct_change :: "series \<Rightarrow> series" where
  "pct_change s =
     map (\<lambda>((d, v), (d', p)). (d, fsub (fdiv v p) (Fin 1))) (zip s (shift1 s))"

definition times100 :: "series \<Rightarrow> series" where
  "times100 s = map (\<lambda>(d, v). (d, fmul v (Fin 100))) s"

text \<open>\<^verbatim>\<open>close.pct_change().dropna() * 100\<close>\<close>

definition returns_of :: "series \<Rightarrow> series" where
  "returns_of close = times100 (dropna (pct_change close))"

section \<open>The output document\<close>

record series_entry =
  dates :: "string list"
  returns :: "fl list"

record ticker_entry = series_entry +
  name :: string
  sector :: string

record document =
  generated :: string
  spy :: series_entry
  tickers :: "(string \<times> ticker_entry) list"
  correlations :: "(string \<times> fl) list"

text \<open>What the script prints, one value for each \<^verbatim>\<open>print\<close> call.\<close>

datatype msg =
    Fetching
  | Downloading nat
  | NoData
  | ProcessingSPY
  | Months nat
  | FailedWith exn
  | Symbol string
  | OnlyMonths nat
  | NotInData
  | ComputingCorrelation
  | Pairs nat
  | Saved nat nat nat

section \<open>Processing the benchmark and the registry symbols\<close>

text \<open>
  The benchmark: any exception of the \<^verbatim>\<open>try\<close> block ends the job (see \<open>build_data\<close>
  below); otherwise the return series and the entry of the document are the result.
\<close>

definition process_spy :: "frame \<Rightarrow> exn + (series \<times> series_entry)" where
  "process_spy df =
     (case getitem df ''SPY'' of
        Inl e \<Rightarrow> Inl e
      | Inr col \<Rightarrow>
          (case numbers (present col) of
             Inl e \<Rightarrow> Inl e
           | Inr spy_close \<Rightarrow>
               (let spy_ret = returns_of spy_close;
                    spy_dates = map (\<lambda>(d, r). strftime_ym d) spy_ret;
                    spy_returns = map (\<lambda>(d, r). py_round 4 r) spy_ret
                in Inr (spy_ret, \<lparr>dates = spy_dates, returns = spy_returns\<rparr>))))"

type_synonym loop_state =
  "(string \<times> series) list \<times> (string \<times> ticker_entry) list \<times> msg list"

text \<open>
  The two handlers of the loop over \<^verbatim>\<open>ticker_list\<close>: a \<^verbatim>\<open>KeyError\<close>, from the table or
  from the registry, is printed as NOT IN DATA, any other exception as FAILED with its
  text.
\<close>

fun caught :: "exn \<Rightarrow> msg" where
  "caught KeyError = NotInData"
| "caught TypeError = FailedWith TypeError"

text \<open>
  One pass of the loop: the state is \<^verbatim>\<open>returns_dict\<close>, \<^verbatim>\<open>ticker_data\<close> and what was
  printed.
\<close>

definition ticker_step :: "frame \<Rightarrow> string \<Rightarrow> loop_state \<Rightarrow> loop_state" where
  "ticker_step df ticker st =
     (case st of (returns_dict, ticker_data, out) \<Rightarrow>
        (case getitem df ticker of
           Inl e \<Rightarrow> (returns_dict, ticker_data, out @ [Symbol ticker, caught e])
         | Inr col \<Rightarrow>
             (let close = present col
              in if length close < 24
                 then (returns_dict, ticker_data, out @ [Symbol ticker, OnlyMonths (length close)])
                 else
                   (case numbers close of
                      Inl e \<Rightarrow> (returns_dict, ticker_data, out @ [Symbol ticker, caught e])
                    | Inr prices \<Rightarrow>
                        (let ret = returns_of prices;
                             ds = map (\<lambda>(d, r). strftime_ym d) ret;
                             rs = map (\<lambda>(d, r). py_round 4 r) ret
                         in case map_of TICKERS ticker of
                              None \<Rightarrow>
                                (returns_dict, ticker_data, out @ [Symbol ticker, caught KeyError])
                            | Some (nm, sec) \<Rightarrow>
                                (dict_set returns_dict ticker ret,
                                 dict_set ticker_data ticker
                                   \<lparr>dates = ds, returns = rs, name = nm, sector = sec\<rparr>,
                                 out @ [Symbol ticker, Months (length rs)]))))))"

section \<open>What the libraries compute\<close>

text \<open>
  Three results depend on binary64 arithmetic inside a library, which the source of the
  script does not show: the digits \<^verbatim>\<open>float.__repr__\<close> writes for a finite number; the
  Pearson coefficient that \<^verbatim>\<open>DataFrame.corr()\<close> computes from the observations of two
  columns; and the one that \<^verbatim>\<open>Series.corr\<close> has numpy compute from the values of two
  series. They are parameters of the model: whatever is proved of the job holds for
  every such library.
\<close>

record library =
  float_repr :: "real \<Rightarrow> string"
  algos_nancorr :: "(real \<times> real) list \<Rightarrow> fl"
  np_corrcoef :: "(fl \<times> fl) list \<Rightarrow> fl"

section \<open>Correlation\<close>

text \<open>
  \<^verbatim>\<open>pd.DataFrame(returns_dict)\<close> has the sorted union of the series' periods as its
  rows and one column for each symbol, NaN where the symbol has no return for the row.
\<close>

definition union_index :: "series list \<Rightarrow> stamp list" where
  "union_index ss = sort (remdups (concat (map (map fst) ss)))"

definition reindex :: "stamp list \<Rightarrow> series \<Rightarrow> fl list" where
  "reindex rows s = map (\<lambda>r. case map_of s r of None \<Rightarrow> NaN | Some v \<Rightarrow> v) rows"

text \<open>
  \<^verbatim>\<open>DataFrame.corr()\<close> takes, for each pair of columns, the rows where both cells are
  finite, in the order of the rows, wants at least one (\<^verbatim>\<open>min_periods=1\<close>), and
  computes their coefficient.
\<close>

fun finite_obs :: "(fl \<times> fl) list \<Rightarrow> (real \<times> real) list" where
  "finite_obs [] = []"
| "finite_obs ((Fin x, Fin y) # ps) = (x, y) # finite_obs ps"
| "finite_obs (_ # ps) = finite_obs ps"

definition nancorr :: "library \<Rightarrow> fl list \<Rightarrow> fl list \<Rightarrow> fl" where
  "nancorr L c1 c2 =
     (let obs = finite_obs (zip c1 c2)
      in if length obs < 1 then NaN else algos_nancorr L obs)"

text \<open>\<^verbatim>\<open>corr_matrix.loc[t1, t2]\<close>, both labels being columns of the matrix.\<close>

definition corr_loc ::
  "library \<Rightarrow> (string \<times> series) list \<Rightarrow> string \<Rightarrow> string \<Rightarrow> fl" where
  "corr_loc L returns_dict t1 t2 =
     (let rows = union_index (map snd returns_dict);
          col = (\<lambda>t. case map_of returns_dict t of None \<Rightarrow> [] | Some s \<Rightarrow> reindex rows s)
      in nancorr L (col t1) (col t2))"

definition matrix_step ::
  "library \<Rightarrow> (string \<times> series) list \<Rightarrow> nat \<times> string \<Rightarrow> nat \<times> string \<Rightarrow>
   (string \<times> fl) list \<Rightarrow> (string \<times> fl) list" where
  "matrix_step L returns_dict p1 p2 corrs =
     (case (p1, p2) of ((i, t1), (j, t2)) \<Rightarrow>
        if i < j
        then (let val = corr_loc L returns_dict t1 t2
              in if notna val then dict_set corrs (t1 @ '','' @ t2) (py_round 3 val)
                 else corrs)
        else corrs)"

definition matrix_loop ::
  "library \<Rightarrow> (string \<times> series) list \<Rightarrow> string list \<Rightarrow> (string \<times> fl) list" where
  "matrix_loop L returns_dict valid_tickers =
     fold (\<lambda>p1. fold (matrix_step L returns_dict p1) (enumerate 0 valid_tickers))
       (enumerate 0 valid_tickers) []"

text \<open>
  \<^verbatim>\<open>pd.concat([a, b], axis=1).dropna()\<close>: the two series side by side on the sorted
  union of their periods, less every row with a NaN cell.
\<close>

definition concat_dropna :: "series \<Rightarrow> series \<Rightarrow> (stamp \<times> fl \<times> fl) list" where
  "concat_dropna a b =
     (let rows = union_index [a, b]
      in filter (\<lambda>(r, x, y). notna x \<and> notna y)
           (zip rows (zip (reindex rows a) (reindex rows b))))"

text \<open>
  \<^verbatim>\<open>Series.corr\<close> of two columns without NaN: NaN for no observation, otherwise what
  numpy computes from all the rows, in their order.
\<close>

definition series_corr :: "library \<Rightarrow> (fl \<times> fl) list \<Rightarrow> fl" where
  "series_corr L ps = (if length ps < 1 then NaN else np_corrcoef L ps)"

definition spy_step ::
  "library \<Rightarrow> series \<Rightarrow> (string \<times> series) list \<Rightarrow> string \<Rightarrow>
   (string \<times> fl) list \<Rightarrow> (string \<times> fl) list" where
  "spy_step L spy_series returns_dict ticker corrs =
     (case map_of returns_dict ticker of
        None \<Rightarrow> corrs
      | Some s \<Rightarrow>
          (let combined = concat_dropna spy_series s
           in if length combined > 12
              then (let corr_val = series_corr L (map snd combined)
                    in if notna corr_val
                       then dict_set corrs (''SPY,'' @ ticker) (py_round 3 corr_val)
                       else corrs)
              else corrs))"

section \<open>Serialisation\<close>

text \<open>
  \<^verbatim>\<open>json.dump(data, f, separators=(",", ":"))\<close>. A string is written between double
  quotes with everything outside the printable ASCII range escaped. A finite number is
  written by Python's \<^verbatim>\<open>float.__repr__\<close>, the argument \<open>R\<close> here; the special values
  are written as the encoder spells them.
\<close>

datatype json =
    JString string
  | JNumber fl
  | JArray "json list"
  | JObject "(string \<times> json) list"

definition hex_digit :: "nat \<Rightarrow> char" where
  "hex_digit n = ''0123456789abcdef'' ! (n mod 16)"

definition escape_char :: "char \<Rightarrow> string" where
  "escape_char c =
     (if c = CHR 0x22 then [CHR 0x5C, CHR 0x22]
      else if c = CHR 0x5C then [CHR 0x5C, CHR 0x5C]
      else if c = CHR 0x0A then [CHR 0x5C, CHR ''n'']
      else if c = CHR 0x0D then [CHR 0x5C, CHR ''r'']
      else if c = CHR 0x09 then [CHR 0x5C, CHR ''t'']
      else if c = CHR 0x0C then [CHR 0x5C, CHR ''f'']
      else if c = CHR 0x08 then [CHR 0x5C, CHR ''b'']
      else if of_char c < (32::nat) \<or> (126::nat) < of_char c
      then [CHR 0x5C, CHR ''u'', CHR ''0'', CHR ''0'',
            hex_digit (of_char c div 16), hex_digit (of_char c)]
      else [c])"

definition quote :: "string \<Rightarrow> string" where
  "quote s = [CHR 0x22] @ concat (map escape_char s) @ [CHR 0x22]"

fun floatstr :: "(real \<Rightarrow> string) \<Rightarrow> fl \<Rightarrow> string" where
  "floatstr R (Fin x) = R x"
| "floatstr R NaN = ''NaN''"
| "floatstr R PInf = ''Infinity''"
| "floatstr R NInf = ''-Infinity''"

fun join :: "string \<Rightarrow> string list \<Rightarrow> string" where
  "join sep [] = []"
| "join sep [x] = x"
| "join sep (x # y # ys) = x @ sep @ join sep (y # ys)"

fun dumps :: "(real \<Rightarrow> string) \<Rightarrow> json \<Rightarrow> string" where
  "dumps R (JString s) = quote s"
| "dumps R (JNumber v) = floatstr R v"
| "dumps R (JArray xs) = ''['' @ join '','' (map (dumps R) xs) @ '']''"
| "dumps R (JObject kvs) =
     ''{'' @ join '','' (map (\<lambda>kv. quote (fst kv) @ '':'' @ dumps R (snd kv)) kvs) @ ''}''"

definition entry_json :: "ticker_entry \<Rightarrow> json" where
  "entry_json e =
     JObject [(''name'', JString (name e)),
              (''sector'', JString (sector e)),
              (''dates'', JArray (map JString (dates e))),
              (''returns'', JArray (map JNumber (returns e)))]"

definition to_json :: "document \<Rightarrow> json" where
  "to_json d =
     JObject [(''generated'', JString (generated d)),
              (''spy'', JObject [(''dates'', JArray (map JString (dates (spy d)))),
                                (''returns'', JArray (map JNumber (returns (spy d))))]),
              (''tickers'', JObject (map (\<lambda>(t, e). (t, entry_json e)) (tickers d))),
              (''correlations'', JObject (map (\<lambda>(k, v). (k, JNumber v)) (correlations d)))]"

section \<open>The job\<close>

text \<open>
  The job from the check of the fetched table to the assembled \<^verbatim>\<open>data\<close> dictionary.
  The arguments are the library, the table that \<^verbatim>\<open>yf.download\<close> returned and the
  date of the second \<^verbatim>\<open>datetime.now()\<close>; the result is what was printed and the
  dictionary, or \<open>None\<close> where the script has left through \<^verbatim>\<open>sys.exit(1)\<close>.
\<close>

definition build_data :: "library \<Rightarrow> frame \<Rightarrow> stamp \<Rightarrow> msg list \<times> document option" where
  "build_data L df now =
     (let out0 = [Fetching, Downloading (length all_tickers)]
      in if df_empty df then (out0 @ [NoData], None)
         else
           (case process_spy df of
              Inl e \<Rightarrow> (out0 @ [ProcessingSPY, FailedWith e], None)
            | Inr (spy_ret, spy_entry) \<Rightarrow>
                (case fold (ticker_step df) ticker_list
                        ([], [], out0 @ [ProcessingSPY, Months (length (returns spy_entry))]) of
                   (returns_dict, ticker_data, out1) \<Rightarrow>
                     (let valid_tickers = map fst returns_dict;
                          corrs = matrix_loop L returns_dict valid_tickers;
                          corrs' = fold (spy_step L spy_ret returns_dict) valid_tickers corrs
                      in (out1 @ [ComputingCorrelation, Pairs (length corrs)],
                          Some \<lparr>generated = isoformat10 now,
                                spy = spy_entry,
                                tickers = ticker_data,
                                correlations = corrs'\<rparr>)))))"

record outcome =
  exit_code :: nat
  stdout :: "msg list"
  data :: "document option"
  written :: "string option"

definition main :: "library \<Rightarrow> frame \<Rightarrow> stamp \<Rightarrow> outcome" where
  "main L df now =
     (case build_data L df now of
        (out, None) \<Rightarrow> \<lparr>exit_code = 1, stdout = out, data = None, written = None\<rparr>
      | (out, Some d) \<Rightarrow>
          (let text = dumps (float_repr L) (to_json d)
           in \<lparr>exit_code = 0,
               stdout = out @ [Saved (length (tickers d)) (length (correlations d)) (length text)],
               data = Some d,
               written = Some text\<rparr>))"

section \<open>Notions used in the statements\<close>

text \<open>
  The Close column of a symbol as the series of floats that the script computes with:
  \<^verbatim>\<open>KeyError\<close> where the table has no such column, \<^verbatim>\<open>TypeError\<close> where the
  column holds a string, on which the arithmetic raises.
\<close>

definition close_col :: "frame \<Rightarrow> string \<Rightarrow> exn + series" where
  "close_col df ticker = (case getitem df ticker of Inl e \<Rightarrow> Inl e | Inr col \<Rightarrow> numbers col)"

text \<open>
  The return of one period as the script computes it,
  (price[t] / price[t-1] - 1) x 100 with the quotient, the difference and the product each
  rounded to binary64, and the list of these returns for a price series, each with the
  label of the later period.
\<close>

definition pct_return :: "fl \<Rightarrow> fl \<Rightarrow> fl" where
  "pct_return prev cur = fmul (fsub (fdiv cur prev) (Fin 1)) (Fin 100)"

definition raw_returns :: "series \<Rightarrow> series" where
  "raw_returns close =
     map (\<lambda>i. (fst (close ! Suc i), pct_return (snd (close ! i)) (snd (close ! Suc i))))
       [0..<length close - 1]"

text \<open>
  The return of one period as the specification writes it, in exact arithmetic:
  (price[t] / price[t-1] - 1) x 100 rounded to 4 decimal places.
\<close>

definition spec_return :: "real \<Rightarrow> real \<Rightarrow> real" where
  "spec_return prev cur = of_int (round_half_even ((cur / prev - 1) * 100 * 10 ^ 4)) / 10 ^ 4"

text \<open>
  The series that the output document retains: the benchmark's and one for each symbol of
  the \<^verbatim>\<open>tickers\<close> map, each as (symbol, dates, returns).
\<close>

definition retained :: "document \<Rightarrow> (string \<times> string list \<times> fl list) list" where
  "retained d =
     (''SPY'', dates (spy d), returns (spy d)) # map (\<lambda>(t, e). (t, dates e, returns e)) (tickers d)"

text \<open>
  The failures of one registry symbol that the loop recovers from, with what is printed
  for each: the symbol is not in the fetched table, it has fewer than 24 observations, or
  its processing raises an exception.
\<close>

definition symbol_failure :: "frame \<Rightarrow> string \<Rightarrow> msg option" where
  "symbol_failure df t =
     (case getitem df t of
        Inl e \<Rightarrow> Some NotInData
      | Inr col \<Rightarrow>
          if length (present col) < 24 then Some (OnlyMonths (length (present col)))
          else (case numbers (present col) of
                  Inl e \<Rightarrow> Some (FailedWith e)
                | Inr prices \<Rightarrow> None))"

text \<open>
  The periods present in both of two series, and the observations of the two series at
  these periods, in chronological order.
\<close>

definition common_periods :: "series \<Rightarrow> series \<Rightarrow> stamp list" where
  "common_periods a b = sort (remdups (filter (\<lambda>p. p \<in> fst ` set b) (map fst a)))"

definition overlap :: "series \<Rightarrow> series \<Rightarrow> (fl \<times> fl) list" where
  "overlap a b = [(x, y). p \<leftarrow> common_periods a b, (q, x) \<leftarrow> a, q = p, (r, y) \<leftarrow> b, r = p]"

text \<open>The bytes of the output file that precede the date of generation.\<close>

definition json_prefix :: string where
  \<open>json_prefix = ''{"generated":"''\<close>

section \<open>Auxiliary definitions\<close>

text \<open>
  What one pass of the loop over the registry does for a symbol, as a function of the
  fetched table alone; the two dictionaries the loop ends with; and the dictionary of
  correlations the two correlation loops end with.
\<close>

definition processed :: "frame \<Rightarrow> string \<Rightarrow> (series \<times> ticker_entry) option" where
  "processed df t =
     (case close_col df t of
        Inl e \<Rightarrow> None
      | Inr col \<Rightarrow>
          if length (dropna col) < 24 then None
          else (case map_of TICKERS t of
                  None \<Rightarrow> None
                | Some (nm, sec) \<Rightarrow>
                    Some (returns_of (dropna col),
                          \<lparr>dates = map (\<lambda>(d, r). strftime_ym d) (returns_of (dropna col)),
                           returns = map (\<lambda>(d, r). py_round 4 r) (returns_of (dropna col)),
                           name = nm, sector = sec\<rparr>)))"

definition skip_msg :: "frame \<Rightarrow> string \<Rightarrow> msg" where
  "skip_msg df t =
     (case getitem df t of
        Inl e \<Rightarrow> caught e
      | Inr col \<Rightarrow>
          if length (present col) < 24 then OnlyMonths (length (present col))
          else (case numbers (present col) of Inl e \<Rightarrow> caught e | Inr prices \<Rightarrow> NotInData))"

definition step_msgs :: "frame \<Rightarrow> string \<Rightarrow> msg list" where
  "step_msgs df t =
     [Symbol t, case processed df t of None \<Rightarrow> skip_msg df t
                | Some (ret, e) \<Rightarrow> Months (length (returns e))]"

definition loop_returns :: "frame \<Rightarrow> (string \<times> series) list" where
  "loop_returns df =
     List.map_filter (\<lambda>t. map_option (\<lambda>p. (t, fst p)) (processed df t)) ticker_list"

definition loop_entries :: "frame \<Rightarrow> (string \<times> ticker_entry) list" where
  "loop_entries df =
     List.map_filter (\<lambda>t. map_option (\<lambda>p. (t, snd p)) (processed df t)) ticker_list"

definition final_correlations :: "library \<Rightarrow> frame \<Rightarrow> series \<Rightarrow> (string \<times> fl) list" where
  "final_correlations L df spy_ret =
     fold (spy_step L spy_ret (loop_returns df)) (map fst (loop_returns df))
       (matrix_loop L (loop_returns df) (map fst (loop_returns df)))"

text \<open>The two kinds of entry that the correlation loops write.\<close>

definition matrix_entry :: "library \<Rightarrow> (string \<times> series) list \<Rightarrow> string list \<Rightarrow> string \<times> fl \<Rightarrow> bool" where
  "matrix_entry L rd valid kv =
     (\<exists>i j. i < j \<and> j < length valid \<and>
        fst kv = valid ! i @ '','' @ valid ! j \<and>
        notna (corr_loc L rd (valid ! i) (valid ! j)) \<and>
        snd kv = py_round 3 (corr_loc L rd (valid ! i) (valid ! j)))"

definition spy_entry :: "library \<Rightarrow> series \<Rightarrow> (string \<times> series) list \<Rightarrow> string \<times> fl \<Rightarrow> bool" where
  "spy_entry L spy_ret rd kv =
     (\<exists>t s. map_of rd t = Some s \<and>
        fst kv = ''SPY,'' @ t \<and>
        12 < length (concat_dropna spy_ret s) \<and>
        notna (series_corr L (map snd (concat_dropna spy_ret s))) \<and>
        snd kv = py_round 3 (series_corr L (map snd (concat_dropna spy_ret s))))"

definition comma_free :: "string \<Rightarrow> bool" where
  "comma_free s = (CHR '','' \<notin> set s)"

definition before :: "string list \<Rightarrow> string \<Rightarrow> string \<Rightarrow> bool" where
  "before valid x y = (\<exists>i j. i < j \<and> j < length valid \<and> valid ! i = x \<and> valid ! j = y)"

text \<open>A cell of a reindexed column, and the observations that are finite on both sides.\<close>

definition cell :: "series \<Rightarrow> stamp \<Rightarrow> fl" where
  "cell s r = (case map_of s r of None \<Rightarrow> NaN | Some v \<Rightarrow> v)"

fun fin_pair :: "fl \<times> fl \<Rightarrow> (real \<times> real) option" where
  "fin_pair (Fin x, Fin y) = Some (x, y)"
| "fin_pair _ = None"

text \<open>The bytes of the output file that follow the date of generation.\<close>

definition document_rest :: "(real \<Rightarrow> string) \<Rightarrow> document \<Rightarrow> string" where
  "document_rest R d =
     [CHR 0x22] @ '','' @
     join '','' (map (\<lambda>kv. quote (fst kv) @ '':'' @ dumps R (snd kv))
       [(''spy'', JObject [(''dates'', JArray (map JString (dates (spy d)))),
                          (''returns'', JArray (map JNumber (returns (spy d))))]),
        (''tickers'', JObject (map (\<lambda>(t, e). (t, entry_json e)) (tickers d))),
        (''correlations'', JObject (map (\<lambda>(k, v). (k, JNumber v)) (correlations d)))])
     @ ''}''"

section \<open>Example inputs\<close>

text \<open>
  A library for the examples: \<open>example_repr\<close> is \<^verbatim>\<open>float.__repr__\<close> on the
  numbers that the examples write, and the two coefficient routines return the Pearson
  coefficient of their observations computed without rounding error and then rounded to
  binary64, NaN where the observations of one side are all equal and, for numpy, where an
  infinity takes part. The coefficients of the examples are 1 and -1.
\<close>

definition example_repr :: "real \<Rightarrow> string" where
  "example_repr x =
     (if x = 100 then ''100.0''
      else if x = - 50 then ''-50.0''
      else if x = 1 then ''1.0''
      else if x = - 1 then ''-1.0''
      else ''0.0'')"

definition mean :: "real list \<Rightarrow> real" where
  "mean xs = sum_list xs / real (length xs)"

definition exact_pearson :: "(real \<times> real) list \<Rightarrow> fl" where
  "exact_pearson obs =
     (let mx = mean (map fst obs);
          my = mean (map snd obs);
          ssqdm_x = (\<Sum>(x, y) \<leftarrow> obs. (x - mx) * (x - mx));
          ssqdm_y = (\<Sum>(x, y) \<leftarrow> obs. (y - my) * (y - my));
          covxy = (\<Sum>(x, y) \<leftarrow> obs. (x - mx) * (y - my));
          divisor = sqrt (ssqdm_x * ssqdm_y)
      in if divisor \<noteq> 0 then b64 (covxy / divisor) else NaN)"

definition example_library :: library where
  "example_library =
     \<lparr>float_repr = example_repr,
      algos_nancorr = exact_pearson,
      np_corrcoef =
        (\<lambda>ps. if length (finite_obs ps) = length ps then exact_pearson (finite_obs ps) else NaN)\<rparr>"

text \<open>
  Two years of monthly rows. In \<open>example_frame\<close> the benchmark and AAPL alternate
  between 100 and 200, MSFT does the opposite, TSLA has ten observations only, and the
  column of NVDA holds strings. In \<open>zero_price_frame\<close> the first two prices of AAPL
  are 0, which makes its first raw return NaN and its second infinite. In
  \<open>blank_spy_frame\<close> the benchmark's only cell is missing, and \<open>no_spy_frame\<close>
  has no column for the benchmark at all. In \<open>rounding_frame\<close> the benchmark has
  the two prices 42 and 42.702093, the latter as the binary64 value nearest to it.
  \<open>example_output\<close> is the file that a run on \<open>example_frame\<close> writes, as a
  function of the date of the run.
\<close>

definition empty_frame :: frame where
  "empty_frame = \<lparr>index = [], columns = []\<rparr>"

definition no_spy_frame :: frame where
  "no_spy_frame = \<lparr>index = [(2024, 1, 1)], columns = [((''Close'', ''AAPL''), [Num (Fin 100)])]\<rparr>"

definition blank_spy_frame :: frame where
  "blank_spy_frame = \<lparr>index = [(2024, 1, 1)], columns = [((''Close'', ''SPY''), [Num NaN])]\<rparr>"

definition blank_spy_document :: document where
  "blank_spy_document =
     \<lparr>generated = ''2024-03-05'',
      spy = \<lparr>dates = [], returns = []\<rparr>,
      tickers = [],
      correlations = []\<rparr>"

definition example_index :: "stamp list" where
  "example_index =
     [(2022, 1, 1), (2022, 2, 1), (2022, 3, 1), (2022, 4, 1), (2022, 5, 1), (2022, 6, 1),
      (2022, 7, 1), (2022, 8, 1), (2022, 9, 1), (2022, 10, 1), (2022, 11, 1), (2022, 12, 1),
      (2023, 1, 1), (2023, 2, 1), (2023, 3, 1), (2023, 4, 1), (2023, 5, 1), (2023, 6, 1),
      (2023, 7, 1), (2023, 8, 1), (2023, 9, 1), (2023, 10, 1), (2023, 11, 1), (2023, 12, 1)]"

definition up_down :: "fl list" where
  "up_down =
     [Fin 100, Fin 200, Fin 100, Fin 200, Fin 100, Fin 200, Fin 100, Fin 200,
      Fin 100, Fin 200, Fin 100, Fin 200, Fin 100, Fin 200, Fin 100, Fin 200,
      Fin 100, Fin 200, Fin 100, Fin 200, Fin 100, Fin 200, Fin 100, Fin 200]"

definition down_up :: "fl list" where
  "down_up =
     [Fin 200, Fin 100, Fin 200, Fin 100, Fin 200, Fin 100, Fin 200, Fin 100,
      Fin 200, Fin 100, Fin 200, Fin 100, Fin 200, Fin 100, Fin 200, Fin 100,
      Fin 200, Fin 100, Fin 200, Fin 100, Fin 200, Fin 100, Fin 200, Fin 100]"

definition short_history :: "fl list" where
  "short_history =
     [NaN, NaN, NaN, NaN, NaN, NaN, NaN, NaN, NaN, NaN, NaN, NaN, NaN, NaN,
      Fin 10, Fin 11, Fin 12, Fin 13, Fin 14, Fin 15, Fin 16, Fin 17, Fin 18, Fin 19]"

definition no_numbers :: "cell list" where
  "no_numbers = map (\<lambda>d. Str ''n/a'') example_index"

definition zero_start :: "fl list" where
  "zero_start =
     [Fin 0, Fin 0, Fin 100, Fin 200, Fin 100, Fin 200, Fin 100, Fin 200,
      Fin 100, Fin 200, Fin 100, Fin 200, Fin 100, Fin 200, Fin 100, Fin 200,
      Fin 100, Fin 200, Fin 100, Fin 200, Fin 100, Fin 200, Fin 100, Fin 200]"

definition example_frame :: frame where
  "example_frame =
     \<lparr>index = example_index,
      columns = [((''Close'', ''SPY''), map Num up_down),
                 ((''Close'', ''AAPL''), map Num up_down),
                 ((''Close'', ''MSFT''), map Num down_up),
                 ((''Close'', ''TSLA''), map Num short_history),
                 ((''Close'', ''NVDA''), no_numbers)]\<rparr>"

definition zero_price_frame :: frame where
  "zero_price_frame =
     \<lparr>index = example_index,
      columns = [((''Close'', ''SPY''), map Num up_down),
                 ((''Close'', ''AAPL''), map Num zero_start),
                 ((''Close'', ''MSFT''), map Num down_up)]\<rparr>"

definition rounding_frame :: frame where
  "rounding_frame =
     \<lparr>index = [(2024, 1, 31), (2024, 2, 29)],
      columns = [((''Close'', ''SPY''),
                  [Num (Fin 42), Num (Fin (6009785316335633 / 140737488355328))])]\<rparr>"

definition returns_up :: series where
  "returns_up =
     [((2022, 2, 1), Fin 100), ((2022, 3, 1), Fin (- 50)),
      ((2022, 4, 1), Fin 100), ((2022, 5, 1), Fin (- 50)),
      ((2022, 6, 1), Fin 100), ((2022, 7, 1), Fin (- 50)),
      ((2022, 8, 1), Fin 100), ((2022, 9, 1), Fin (- 50)),
      ((2022, 10, 1), Fin 100), ((2022, 11, 1), Fin (- 50)),
      ((2022, 12, 1), Fin 100), ((2023, 1, 1), Fin (- 50)),
      ((2023, 2, 1), Fin 100), ((2023, 3, 1), Fin (- 50)),
      ((2023, 4, 1), Fin 100), ((2023, 5, 1), Fin (- 50)),
      ((2023, 6, 1), Fin 100), ((2023, 7, 1), Fin (- 50)),
      ((2023, 8, 1), Fin 100), ((2023, 9, 1), Fin (- 50)),
      ((2023, 10, 1), Fin 100), ((2023, 11, 1), Fin (- 50)),
      ((2023, 12, 1), Fin 100)]"

definition returns_down :: series where
  "returns_down =
     [((2022, 2, 1), Fin (- 50)), ((2022, 3, 1), Fin 100),
      ((2022, 4, 1), Fin (- 50)), ((2022, 5, 1), Fin 100),
      ((2022, 6, 1), Fin (- 50)), ((2022, 7, 1), Fin 100),
      ((2022, 8, 1), Fin (- 50)), ((2022, 9, 1), Fin 100),
      ((2022, 10, 1), Fin (- 50)), ((2022, 11, 1), Fin 100),
      ((2022, 12, 1), Fin (- 50)), ((2023, 1, 1), Fin 100),
      ((2023, 2, 1), Fin (- 50)), ((2023, 3, 1), Fin 100),
      ((2023, 4, 1), Fin (- 50)), ((2023, 5, 1), Fin 100),
      ((2023, 6, 1), Fin (- 50)), ((2023, 7, 1), Fin 100),
      ((2023, 8, 1), Fin (- 50)), ((2023, 9, 1), Fin 100),
      ((2023, 10, 1), Fin (- 50)), ((2023, 11, 1), Fin 100),
      ((2023, 12, 1), Fin (- 50))]"

definition returns_zero_start :: series where
  "returns_zero_start =
     [((2022, 3, 1), PInf),
      ((2022, 4, 1), Fin 100), ((2022, 5, 1), Fin (- 50)),
      ((2022, 6, 1), Fin 100), ((2022, 7, 1), Fin (- 50)),
      ((2022, 8, 1), Fin 100), ((2022, 9, 1), Fin (- 50)),
      ((2022, 10, 1), Fin 100), ((2022, 11, 1), Fin (- 50)),
      ((2022, 12, 1), Fin 100), ((2023, 1, 1), Fin (- 50)),
      ((2023, 2, 1), Fin 100), ((2023, 3, 1), Fin (- 50)),
      ((2023, 4, 1), Fin 100), ((2023, 5, 1), Fin (- 50)),
      ((2023, 6, 1), Fin 100), ((2023, 7, 1), Fin (- 50)),
      ((2023, 8, 1), Fin 100), ((2023, 9, 1), Fin (- 50)),
      ((2023, 10, 1), Fin 100), ((2023, 11, 1), Fin (- 50)),
      ((2023, 12, 1), Fin 100)]"

definition example_dates :: "string list" where
  "example_dates =
     [''2022-02'', ''2022-03'', ''2022-04'', ''2022-05'', ''2022-06'', ''2022-07'',
      ''2022-08'', ''2022-09'', ''2022-10'', ''2022-11'', ''2022-12'', ''2023-01'',
      ''2023-02'', ''2023-03'', ''2023-04'', ''2023-05'', ''2023-06'', ''2023-07'',
      ''2023-08'', ''2023-09'', ''2023-10'', ''2023-11'', ''2023-12'']"

definition zero_start_dates :: "string list" where
  "zero_start_dates =
     [''2022-03'', ''2022-04'', ''2022-05'', ''2022-06'', ''2022-07'',
      ''2022-08'', ''2022-09'', ''2022-10'', ''2022-11'', ''2022-12'', ''2023-01'',
      ''2023-02'', ''2023-03'', ''2023-04'', ''2023-05'', ''2023-06'', ''2023-07'',
      ''2023-08'', ''2023-09'', ''2023-10'', ''2023-11'', ''2023-12'']"

definition example_document :: document where
  "example_document =
     \<lparr>generated = ''2024-03-05'',
      spy = \<lparr>dates = example_dates, returns = map snd returns_up\<rparr>,
      tickers =
        [(''AAPL'', \<lparr>dates = example_dates, returns = map snd returns_up,
                      name = ''Apple'', sector = ''Technology''\<rparr>),
         (''MSFT'', \<lparr>dates = example_dates, returns = map snd returns_down,
                      name = ''Microsoft'', sector = ''Technology''\<rparr>)],
      correlations =
        [(''AAPL,MSFT'', Fin (- 1)), (''SPY,AAPL'', Fin 1), (''SPY,MSFT'', Fin (- 1))]\<rparr>"

definition zero_price_document :: document where
  "zero_price_document =
     \<lparr>generated = ''2024-03-05'',
      spy = \<lparr>dates = example_dates, returns = map snd returns_up\<rparr>,
      tickers =
        [(''AAPL'', \<lparr>dates = zero_start_dates, returns = map snd returns_zero_start,
                      name = ''Apple'', sector = ''Technology''\<rparr>),
         (''MSFT'', \<lparr>dates = example_dates, returns = map snd returns_down,
                      name = ''Microsoft'', sector = ''Technology''\<rparr>)],
      correlations = [(''AAPL,MSFT'', Fin (- 1)), (''SPY,MSFT'', Fin (- 1))]\<rparr>"

definition rounding_document :: document where
  "rounding_document =
     \<lparr>generated = ''2024-03-05'',
      spy = \<lparr>dates = [''2024-02''], returns = [Fin (3764333748537629 / 2251799813685248)]\<rparr>,
      tickers = [],
      correlations = []\<rparr>"

definition example_rest :: string where
  \<open>example_rest =
     ''","spy":{"dates":["2022-02","2022-03","2022-04","2022-05","2022-06","2022-07","2'' @
     ''022-08","2022-09","2022-10","2022-11","2022-12","2023-01","2023-02","2023-03","2'' @
     ''023-04","2023-05","2023-06","2023-07","2023-08","2023-09","2023-10","2023-11","2'' @
     ''023-12"],"returns":[100.0,-50.0,100.0,-50.0,100.0,-50.0,100.0,-50.0,100.0,-50.0,'' @
     ''100.0,-50.0,100.0,-50.0,100.0,-50.0,100.0,-50.0,100.0,-50.0,100.0,-50.0,100.0]},'' @
     ''"tickers":{"AAPL":{"name":"Apple","sector":"Technology","dates":["2022-02","2022'' @
     ''-03","2022-04","2022-05","2022-06","2022-07","2022-08","2022-09","2022-10","2022'' @
     ''-11","2022-12","2023-01","2023-02","2023-03","2023-04","2023-05","2023-06","2023'' @
     ''-07","2023-08","2023-09","2023-10","2023-11","2023-12"],"returns":[100.0,-50.0,1'' @
     ''00.0,-50.0,100.0,-50.0,100.0,-50.0,100.0,-50.0,100.0,-50.0,100.0,-50.0,100.0,-50'' @
     ''.0,100.0,-50.0,100.0,-50.0,100.0,-50.0,100.0]},"MSFT":{"name":"Microsoft","secto'' @
     ''r":"Technology","dates":["2022-02","2022-03","2022-04","2022-05","2022-06","2022'' @
     ''-07","2022-08","2022-09","2022-10","2022-11","2022-12","2023-01","2023-02","2023'' @
     ''-03","2023-04","2023-05","2023-06","2023-07","2023-08","2023-09","2023-10","2023'' @
     ''-11","2023-12"],"returns":[-50.0,100.0,-50.0,100.0,-50.0,100.0,-50.0,100.0,-50.0'' @
     '',100.0,-50.0,100.0,-50.0,100.0,-50.0,100.0,-50.0,100.0,-50.0,100.0,-50.0,100.0,-'' @
     ''50.0]}},"correlations":{"AAPL,MSFT":-1.0,"SPY,AAPL":1.0,"SPY,MSFT":-1.0}}''\<close>

definition example_output :: "string \<Rightarrow> string" where
  "example_output date = json_prefix @ date @ example_rest"

section \<open>Rounding to binary64\<close>

text \<open>
  A number between \<open>2\<^sup>5\<^sup>2\<^sup>-\<^sup>n\<close> and \<open>2\<^sup>5\<^sup>3\<^sup>-\<^sup>n\<close> is rounded to a multiple of
  \<open>2\<^sup>-\<^sup>n\<close>; the numbers of the examples are binary64 values themselves.
\<close>

lemma round_half_even_bounds:
  assumes "of_int a \<le> x" and "x \<le> of_int b"
  shows "a \<le> round_half_even x \<and> round_half_even x \<le> b"
proof -
  have lo: "a \<le> \<lfloor>x\<rfloor>" using assms(1) by (simp add: le_floor_iff)
  have hi: "\<lfloor>x\<rfloor> \<le> b" using assms(2) by (simp add: floor_le_iff)
  show ?thesis
  proof (cases "\<lfloor>x\<rfloor> = b")
    case True
    then have "x - of_int \<lfloor>x\<rfloor> \<le> 0" using assms(2) by simp
    then have "round_half_even x = \<lfloor>x\<rfloor>" by (simp add: round_half_even_def Let_def)
    with lo hi show ?thesis by simp
  next
    case False
    with hi have "\<lfloor>x\<rfloor> + 1 \<le> b" by simp
    moreover have "round_half_even x = \<lfloor>x\<rfloor> \<or> round_half_even x = \<lfloor>x\<rfloor> + 1"
      by (simp add: round_half_even_def Let_def)
    ultimately show ?thesis using lo by auto
  qed
qed

lemma b64_notna: "notna (b64 x)"
  by (simp add: b64_def Let_def notna_def)

lemma b64_normal:
  fixes x :: real and n :: nat
  assumes lo: "2 ^ 52 \<le> \<bar>x\<bar> * 2 ^ n" and hi: "\<bar>x\<bar> * 2 ^ n < 2 ^ 53" and n: "n \<le> 1074"
  shows "b64 x = Fin (of_int (round_half_even (x * 2 ^ n)) / 2 ^ n)"
proof -
  have pos: "0 < \<bar>x\<bar>" using lo by (cases "x = 0") auto
  then have x0: "x \<noteq> 0" by auto
  define k :: int where "k = 52 - int n"
  have pk: "2 powr (of_int k) = (2 ^ 52 / 2 ^ n :: real)"
    by (simp add: k_def powr_diff powr_realpow)
  have pk1: "2 powr (of_int (k + 1)) = (2 ^ 53 / 2 ^ n :: real)"
    by (simp add: k_def powr_diff powr_add powr_realpow)
  have "2 powr (of_int k) \<le> \<bar>x\<bar>" unfolding pk using lo by (simp add: field_simps)
  moreover have "\<bar>x\<bar> < 2 powr (of_int (k + 1))" unfolding pk1 using hi by (simp add: field_simps)
  ultimately have fl: "\<lfloor>log 2 \<bar>x\<bar>\<rfloor> = k"
    using pos by (simp add: floor_log_eq_powr_iff)
  have mx: "max k (- 1022) = k" using n by (simp add: k_def)
  have ulp: "2 powr (of_int k - 52) = (1 / 2 ^ n :: real)"
    by (simp add: k_def powr_minus powr_realpow field_simps)
  have "\<bar>x * 2 ^ n\<bar> \<le> 2 ^ 53" using hi by (simp add: abs_mult)
  then have "of_int (- (2 ^ 53)) \<le> x * 2 ^ n" "x * 2 ^ n \<le> of_int (2 ^ 53)" by simp_all
  from round_half_even_bounds[OF this]
  have "\<bar>round_half_even (x * 2 ^ n)\<bar> \<le> 2 ^ 53" by linarith
  then have "of_int \<bar>round_half_even (x * 2 ^ n)\<bar> \<le> (of_int (2 ^ 53) :: real)"
    by (simp only: of_int_le_iff)
  then have m: "\<bar>of_int (round_half_even (x * 2 ^ n)) :: real\<bar> \<le> 2 ^ 53" by simp
  have "(1::real) \<le> 2 ^ n" by simp
  then have "\<bar>of_int (round_half_even (x * 2 ^ n)) :: real\<bar> / 2 ^ n
               \<le> \<bar>of_int (round_half_even (x * 2 ^ n))\<bar> / 1"
    by (intro divide_left_mono) simp_all
  with m have "\<bar>of_int (round_half_even (x * 2 ^ n)) / 2 ^ n :: real\<bar> \<le> 2 ^ 53"
    by simp
  also have "\<dots> < (2 ^ 1024 :: real)" by simp
  finally have small: "\<not> (2 ^ 1024 \<le> \<bar>of_int (round_half_even (x * 2 ^ n)) / 2 ^ n :: real\<bar>)"
    by simp
  show ?thesis
    unfolding b64_def Let_def fl mx ulp using x0 small by simp
qed

lemma b64_values:
  "b64 1 = Fin 1"
  "b64 2 = Fin 2"
  "b64 100 = Fin 100"
  "b64 (1 / 2) = Fin (1 / 2)"
  "b64 (- 1) = Fin (- 1)"
  "b64 (- (1 / 2)) = Fin (- (1 / 2))"
  "b64 (- 50) = Fin (- 50)"
  using b64_normal[of 1 52] b64_normal[of 2 51] b64_normal[of 100 46] b64_normal[of "1 / 2" 53]
    b64_normal[of "- 1" 52] b64_normal[of "- (1 / 2)" 53] b64_normal[of "- 50" 47]
  by (simp_all add: round_half_even_def)

section \<open>The loop over the registry\<close>

lemma numbers_present:
  "numbers (present col) =
     (case numbers col of Inl e \<Rightarrow> Inl e | Inr s \<Rightarrow> Inr (dropna s))"
proof (induction col rule: numbers.induct)
  case 1
  then show ?case by (simp add: present_def dropna_def)
next
  case (2 d s col)
  then show ?case by (simp add: present_def)
next
  case (3 d v col)
  then show ?case
    by (cases v; cases "numbers col")
       (auto simp: present_def dropna_def notna_def split: sum.splits)
qed

lemma numbers_length: "numbers col = Inr s \<Longrightarrow> length s = length col"
proof (induction col arbitrary: s rule: numbers.induct)
  case 1
  then show ?case by simp
next
  case (2 d s col)
  then show ?case by simp
next
  case (3 d v col)
  then show ?case by (cases "numbers col") auto
qed

lemma numbers_map_fst: "numbers col = Inr s \<Longrightarrow> map fst s = map fst col"
proof (induction col arbitrary: s rule: numbers.induct)
  case 1
  then show ?case by simp
next
  case (2 d s col)
  then show ?case by simp
next
  case (3 d v col)
  then show ?case by (cases "numbers col") auto
qed

lemma numbers_Inl: "numbers col = Inl e \<Longrightarrow> e = TypeError"
proof (induction col rule: numbers.induct)
  case 1
  then show ?case by simp
next
  case (2 d s col)
  then show ?case by simp
next
  case (3 d v col)
  then show ?case by (cases "numbers col") auto
qed

lemma getitem_Inl: "getitem df t = Inl e \<Longrightarrow> e = KeyError"
  by (auto simp: getitem_def split: option.splits)

lemma getitem_cases:
  "(\<exists>cells. getitem df t = Inr cells) \<or> (getitem df t = Inl KeyError \<and> close_col df t = Inl KeyError)"
  by (auto simp: getitem_def close_col_def split: option.splits)

lemma close_col_present:
  assumes "getitem df t = Inr cells" and "close_col df t = Inr col"
  shows "numbers (present cells) = Inr (dropna col) \<and> length (present cells) = length (dropna col)"
proof -
  from assms have n: "numbers cells = Inr col" by (simp add: close_col_def)
  then have p: "numbers (present cells) = Inr (dropna col)" by (simp add: numbers_present)
  from numbers_length[OF p] p show ?thesis by simp
qed

lemma close_col_raises:
  assumes "getitem df t = Inr cells" and "close_col df t = Inl e"
  shows "numbers (present cells) = Inl e"
  using assms by (simp add: close_col_def numbers_present)

lemma ticker_step_processed:
  "ticker_step df t (rd, td, out) =
     (case processed df t of
        None \<Rightarrow> (rd, td, out @ step_msgs df t)
      | Some (ret, e) \<Rightarrow> (dict_set rd t ret, dict_set td t e, out @ step_msgs df t))"
proof (cases "getitem df t")
  case (Inl e)
  then show ?thesis
    by (simp add: ticker_step_def processed_def skip_msg_def step_msgs_def close_col_def)
next
  case (Inr cells)
  show ?thesis
  proof (cases "close_col df t")
    case (Inl e)
    from close_col_raises[OF Inr Inl] Inr Inl show ?thesis
      by (simp add: ticker_step_def processed_def skip_msg_def step_msgs_def Let_def)
  next
    case r: (Inr col)
    from close_col_present[OF Inr r] Inr r show ?thesis
      by (auto simp: ticker_step_def processed_def skip_msg_def step_msgs_def Let_def
               split: option.splits)
  qed
qed

lemma dict_set_fresh: "k \<notin> fst ` set kvs \<Longrightarrow> dict_set kvs k v = kvs @ [(k, v)]"
  by (induction kvs) auto

lemma ticker_loop_fold:
  "distinct ts \<Longrightarrow> set ts \<inter> fst ` set rd = {} \<Longrightarrow> set ts \<inter> fst ` set td = {} \<Longrightarrow>
   fold (ticker_step df) ts (rd, td, out) =
     (rd @ List.map_filter (\<lambda>t. map_option (\<lambda>p. (t, fst p)) (processed df t)) ts,
      td @ List.map_filter (\<lambda>t. map_option (\<lambda>p. (t, snd p)) (processed df t)) ts,
      out @ concat (map (step_msgs df) ts))"
proof (induction ts arbitrary: rd td out)
  case Nil
  then show ?case by simp
next
  case (Cons t ts)
  show ?case
  proof (cases "processed df t")
    case None
    with Cons show ?thesis
      by (simp add: ticker_step_processed)
  next
    case (Some p)
    obtain ret e where p: "p = (ret, e)" by (cases p)
    have a: "t \<notin> fst ` set rd" "t \<notin> fst ` set td" using Cons.prems by auto
    have "set ts \<inter> fst ` set (rd @ [(t, ret)]) = {}" "set ts \<inter> fst ` set (td @ [(t, e)]) = {}"
      using Cons.prems by auto
    with Cons.IH[of "rd @ [(t, ret)]" "td @ [(t, e)]"] Cons.prems(1) Some p a
    show ?thesis
      by (simp add: ticker_step_processed dict_set_fresh)
  qed
qed

lemma distinct_ticker_list: "distinct ticker_list"
  by (simp add: ticker_list_def TICKERS_def)

lemma ticker_loop_main:
  "fold (ticker_step df) ticker_list ([], [], out) =
     (loop_returns df, loop_entries df, out @ concat (map (step_msgs df) ticker_list))"
  using ticker_loop_fold[OF distinct_ticker_list, of "[]" "[]" df out]
  by (simp add: loop_returns_def loop_entries_def)

lemma process_spy_Inr:
  assumes "close_col df ''SPY'' = Inr col"
  shows "process_spy df =
     Inr (returns_of (dropna col),
          \<lparr>dates = map (\<lambda>(d, r). strftime_ym d) (returns_of (dropna col)),
           returns = map (\<lambda>(d, r). py_round 4 r) (returns_of (dropna col))\<rparr>)"
proof -
  from assms getitem_cases[of df "''SPY''"] obtain cells where c: "getitem df ''SPY'' = Inr cells"
    by auto
  from close_col_present[OF c assms] c show ?thesis
    by (simp add: process_spy_def Let_def)
qed

lemma process_spy_Inl:
  assumes "close_col df ''SPY'' = Inl e"
  shows "process_spy df = Inl e"
proof (cases "getitem df ''SPY''")
  case (Inl e')
  with assms show ?thesis by (simp add: process_spy_def close_col_def)
next
  case (Inr cells)
  from close_col_raises[OF Inr assms] Inr show ?thesis by (simp add: process_spy_def)
qed

lemma build_data_Some:
  assumes "\<not> df_empty df" and "close_col df ''SPY'' = Inr col"
  shows "build_data L df now =
     ([Fetching, Downloading (length all_tickers), ProcessingSPY,
       Months (length (returns_of (dropna col)))]
        @ concat (map (step_msgs df) ticker_list)
        @ [ComputingCorrelation,
           Pairs (length (matrix_loop L (loop_returns df) (map fst (loop_returns df))))],
      Some \<lparr>generated = isoformat10 now,
            spy = \<lparr>dates = map (\<lambda>(d, r). strftime_ym d) (returns_of (dropna col)),
                   returns = map (\<lambda>(d, r). py_round 4 r) (returns_of (dropna col))\<rparr>,
            tickers = loop_entries df,
            correlations = final_correlations L df (returns_of (dropna col))\<rparr>)"
  using assms
  by (simp add: build_data_def process_spy_Inr ticker_loop_main Let_def final_correlations_def)

lemma build_data_cases:
  "snd (build_data L df now) = Some d \<Longrightarrow>
   \<not> df_empty df \<and> (\<exists>col. close_col df ''SPY'' = Inr col)"
  by (cases "close_col df ''SPY''") (auto simp: build_data_def process_spy_Inl Let_def split: if_splits)

lemma build_data_now:
  "snd (build_data L df now) =
     map_option (\<lambda>d. d\<lparr>generated := isoformat10 now\<rparr>) (snd (build_data L df now0))"
  by (auto simp: build_data_def Let_def split: sum.splits prod.splits)

lemma main_data: "data (main L df now) = snd (build_data L df now)"
  by (cases "build_data L df now") (auto simp: main_def Let_def split: option.splits)

lemma main_written:
  "written (main L df now) = map_option (\<lambda>d. dumps (float_repr L) (to_json d)) (snd (build_data L df now))"
  by (cases "build_data L df now") (auto simp: main_def Let_def split: option.splits)

lemma main_exit_code:
  "exit_code (main L df now) = (if snd (build_data L df now) = None then 1 else 0)"
  by (cases "build_data L df now") (auto simp: main_def Let_def split: option.splits)

lemma data_Some:
  assumes "data (main L df now) = Some d"
  shows "\<exists>col. \<not> df_empty df \<and> close_col df ''SPY'' = Inr col \<and>
           generated d = isoformat10 now \<and>
           tickers d = loop_entries df \<and>
           correlations d = final_correlations L df (returns_of (dropna col))"
proof -
  from assms have b: "snd (build_data L df now) = Some d" by (simp add: main_data)
  from build_data_cases[OF b] obtain col where
    ne: "\<not> df_empty df" and spy: "close_col df ''SPY'' = Inr col" by blast
  from b build_data_Some[OF ne spy, of L now] ne spy show ?thesis by auto
qed

lemma registry_lookup: "t \<in> set ticker_list \<Longrightarrow> \<exists>nm sec. map_of TICKERS t = Some (nm, sec)"
proof -
  assume "t \<in> set ticker_list"
  then have "map_of TICKERS t \<noteq> None"
    by (simp add: ticker_list_def map_of_eq_None_iff)
  then show ?thesis by (cases "map_of TICKERS t") auto
qed

lemma processed_iff:
  assumes "t \<in> set ticker_list"
  shows "(processed df t \<noteq> None) = (\<exists>col. close_col df t = Inr col \<and> 24 \<le> length (dropna col))"
  using registry_lookup[OF assms]
  by (cases "close_col df t") (auto simp: processed_def)

lemma map_filter_keys:
  "map fst (List.map_filter (\<lambda>t. map_option (\<lambda>p. (t, g p)) (F t)) ts) = filter (\<lambda>t. F t \<noteq> None) ts"
  by (induction ts) (auto split: option.splits)

lemma map_filter_mem:
  "((t, x) \<in> set (List.map_filter (\<lambda>t. map_option (\<lambda>p. (t, g p)) (F t)) ts)) =
     (t \<in> set ts \<and> (\<exists>p. F t = Some p \<and> x = g p))"
  by (induction ts) (auto split: option.splits)

lemma loop_entries_keys:
  "map fst (loop_entries df) = filter (\<lambda>t. processed df t \<noteq> None) ticker_list"
  unfolding loop_entries_def by (rule map_filter_keys)

lemma loop_returns_keys:
  "map fst (loop_returns df) = filter (\<lambda>t. processed df t \<noteq> None) ticker_list"
  unfolding loop_returns_def by (rule map_filter_keys)

lemma loop_entries_mem:
  "((t, e) \<in> set (loop_entries df)) = (t \<in> set ticker_list \<and> (\<exists>ret. processed df t = Some (ret, e)))"
  unfolding loop_entries_def by (auto simp: map_filter_mem)

lemma loop_returns_mem:
  "((t, s) \<in> set (loop_returns df)) = (t \<in> set ticker_list \<and> (\<exists>e. processed df t = Some (s, e)))"
  unfolding loop_returns_def by (auto simp: map_filter_mem)

lemma valid_iff:
  assumes "t \<in> set ticker_list"
  shows "(t \<in> set (map fst (loop_returns df))) =
         (\<exists>col. close_col df t = Inr col \<and> 24 \<le> length (dropna col))"
  using assms processed_iff[OF assms, of df] by (simp add: loop_returns_keys del: not_None_eq)

lemma valid_tickers:
  "distinct (map fst (loop_returns df)) \<and> set (map fst (loop_returns df)) \<subseteq> set ticker_list \<and>
   map fst (loop_returns df) = map fst (loop_entries df)"
  by (simp add: loop_returns_keys loop_entries_keys distinct_ticker_list)

lemma zip_map_same: "zip (map f xs) (map g xs) = map (\<lambda>x. (f x, g x)) xs"
  by (induction xs) auto

lemma processed_Some:
  "processed df t = Some (ret, e) \<Longrightarrow>
   \<exists>col. close_col df t = Inr col \<and> 24 \<le> length (dropna col) \<and> ret = returns_of (dropna col) \<and>
     dates e = map (\<lambda>(p, r). strftime_ym p) (returns_of (dropna col)) \<and>
     returns e = map (\<lambda>(p, r). py_round 4 r) (returns_of (dropna col))"
  by (cases "close_col df t") (auto simp: processed_def split: if_splits option.splits)

lemma retained_series:
  assumes "data (main L df now) = Some d" and "(t, ds, rs) \<in> set (retained d)"
  shows "\<exists>col. close_col df t = Inr col \<and>
           ds = map (\<lambda>(p, r). strftime_ym p) (returns_of (dropna col)) \<and>
           rs = map (\<lambda>(p, r). py_round 4 r) (returns_of (dropna col))"
proof -
  from assms(1) have b: "snd (build_data L df now) = Some d" by (simp add: main_data)
  from build_data_cases[OF b] obtain col where
    ne: "\<not> df_empty df" and spy: "close_col df ''SPY'' = Inr col" by blast
  from b build_data_Some[OF ne spy, of L now] have
    d_spy: "spy d = \<lparr>dates = map (\<lambda>(p, r). strftime_ym p) (returns_of (dropna col)),
                     returns = map (\<lambda>(p, r). py_round 4 r) (returns_of (dropna col))\<rparr>"
    and d_tickers: "tickers d = loop_entries df"
    by auto
  from assms(2) consider
      (bench) "t = ''SPY''" "ds = dates (spy d)" "rs = returns (spy d)"
    | (sym) e where "(t, e) \<in> set (tickers d)" "ds = dates e" "rs = returns e"
    by (auto simp: retained_def)
  then show ?thesis
  proof cases
    case bench
    with spy d_spy show ?thesis by simp
  next
    case sym
    from sym(1) d_tickers obtain ret where "processed df t = Some (ret, e)"
      by (auto simp: loop_entries_mem)
    from processed_Some[OF this] sym(2,3) show ?thesis by auto
  qed
qed

lemma loop_returns_lookup:
  assumes "map_of (loop_returns df) t = Some s"
  shows "\<exists>col. close_col df t = Inr col \<and> s = returns_of (dropna col)"
proof -
  from map_of_SomeD[OF assms] obtain e where "processed df t = Some (s, e)"
    by (auto simp: loop_returns_mem)
  from processed_Some[OF this] show ?thesis by blast
qed

lemma loop_returns_valid:
  assumes "t \<in> set (map fst (loop_returns df))"
  shows "\<exists>col. close_col df t = Inr col \<and>
           map_of (loop_returns df) t = Some (returns_of (dropna col))"
proof -
  from assms have "map_of (loop_returns df) t \<noteq> None"
    by (simp add: map_of_eq_None_iff)
  then obtain s where s: "map_of (loop_returns df) t = Some s" by auto
  from loop_returns_lookup[OF s] s show ?thesis by auto
qed

lemma symbol_failure_processed:
  assumes "symbol_failure df t = Some m"
  shows "processed df t = None \<and> skip_msg df t = m"
proof (cases "getitem df t")
  case (Inl e)
  with assms getitem_Inl[OF Inl] show ?thesis
    by (simp add: symbol_failure_def processed_def skip_msg_def close_col_def)
next
  case (Inr cells)
  show ?thesis
  proof (cases "close_col df t")
    case (Inl e)
    from close_col_raises[OF Inr Inl] numbers_Inl[of "present cells" e] assms Inr Inl
    show ?thesis
      by (auto simp: symbol_failure_def processed_def skip_msg_def split: if_splits)
  next
    case r: (Inr col)
    from close_col_present[OF Inr r] assms Inr r show ?thesis
      by (auto simp: symbol_failure_def processed_def skip_msg_def split: if_splits)
  qed
qed

lemma step_msgs_failure:
  assumes "symbol_failure df t = Some m"
  shows "step_msgs df t = [Symbol t, m]"
  using symbol_failure_processed[OF assms] by (simp add: step_msgs_def)

lemma symbol_failure_None:
  assumes "t \<in> set ticker_list"
  shows "(symbol_failure df t = None) = (processed df t \<noteq> None)"
proof (cases "symbol_failure df t")
  case (Some m)
  with symbol_failure_processed[OF Some] show ?thesis by simp
next
  case None
  then obtain cells where c: "getitem df t = Inr cells"
    by (cases "getitem df t") (auto simp: symbol_failure_def)
  from None c obtain prices where p: "\<not> length (present cells) < 24"
    "numbers (present cells) = Inr prices"
    by (cases "numbers (present cells)") (auto simp: symbol_failure_def split: if_splits)
  from p(2) obtain col where col: "numbers cells = Inr col"
    by (cases "numbers cells") (auto simp: numbers_present)
  with c have cc: "close_col df t = Inr col" by (simp add: close_col_def)
  from close_col_present[OF c cc] p registry_lookup[OF assms] cc None show ?thesis
    by (auto simp: processed_def)
qed

section \<open>Return series\<close>

lemma length_pct_change: "length (pct_change s) = length s"
  by (simp add: pct_change_def shift1_def)

lemma pct_change_nth:
  assumes "i < length s"
  shows "pct_change s ! i =
     (fst (s ! i), if i = 0 then NaN else fsub (fdiv (snd (s ! i)) (snd (s ! (i - 1)))) (Fin 1))"
proof (cases i)
  case 0
  with assms show ?thesis
    by (cases "s ! 0"; cases "snd (s ! 0)") (simp_all add: pct_change_def shift1_def)
next
  case (Suc j)
  with assms show ?thesis
    by (cases "s ! i") (simp add: pct_change_def shift1_def)
qed

lemma pct_change_upt:
  "pct_change s =
     map (\<lambda>i. (fst (s ! i), if i = 0 then NaN else fsub (fdiv (snd (s ! i)) (snd (s ! (i - 1)))) (Fin 1)))
       [0..<length s]"
  by (rule nth_equalityI) (simp_all add: length_pct_change pct_change_nth)

lemma notna_times100: "notna (fmul v (Fin 100)) = notna v"
  using b64_notna by (cases v) (simp_all add: notna_def)

lemma times100_dropna: "times100 (dropna s) = dropna (times100 s)"
  by (induction s) (auto simp: times100_def dropna_def notna_times100)

lemma returns_of_raw: "returns_of close = dropna (raw_returns close)"
proof (cases close)
  case Nil
  then show ?thesis
    by (simp add: returns_of_def pct_change_def shift1_def raw_returns_def dropna_def times100_def)
next
  case (Cons x xs)
  then have len: "[0..<length close] = 0 # map Suc [0..<length close - 1]"
    by (simp add: upt_conv_Cons map_Suc_upt del: upt_Suc)
  have "times100 (pct_change close) =
          (fst (close ! 0), NaN) # raw_returns close"
    unfolding pct_change_upt len
    by (simp add: times100_def raw_returns_def pct_return_def comp_def)
  then have "dropna (times100 (pct_change close)) = dropna (raw_returns close)"
    by (simp add: dropna_def notna_def)
  then show ?thesis
    by (simp add: returns_of_def times100_dropna)
qed

lemma fsub_notna: "notna v \<Longrightarrow> v \<noteq> PInf \<or> w \<noteq> PInf \<Longrightarrow> v \<noteq> NInf \<or> w \<noteq> NInf \<Longrightarrow> notna w \<Longrightarrow>
  notna (fsub v w)"
  using b64_notna by (cases v; cases w) (simp_all add: notna_def)

lemma pct_return_defined: "y \<noteq> 0 \<Longrightarrow> notna (pct_return (Fin y) (Fin x))"
  unfolding pct_return_def notna_times100
  by (rule fsub_notna) (simp_all add: b64_notna, simp add: notna_def)

lemma raw_returns_defined:
  assumes "\<forall>(p, v) \<in> set close. \<exists>x. v = Fin x \<and> x \<noteq> 0"
  shows "\<forall>(p, v) \<in> set (raw_returns close). notna v"
proof -
  have "notna (pct_return (snd (close ! i)) (snd (close ! Suc i)))" if "Suc i < length close" for i
  proof -
    have fin: "\<exists>x. snd e = Fin x \<and> x \<noteq> 0" if "e \<in> set close" for e
      using assms that by (auto simp: case_prod_unfold)
    from that have "close ! i \<in> set close" "close ! Suc i \<in> set close" by simp_all
    with fin obtain x y where "snd (close ! i) = Fin y" "y \<noteq> 0" "snd (close ! Suc i) = Fin x"
      by blast
    then show ?thesis by (simp add: pct_return_defined)
  qed
  then show ?thesis by (auto simp: raw_returns_def)
qed

lemma close_col_distinct:
  assumes "distinct (index df)" and "close_col df t = Inr col"
  shows "distinct (map fst col)"
proof -
  from assms(2) obtain cells where "numbers (zip (index df) cells) = Inr col"
    by (auto simp: close_col_def getitem_def split: option.splits)
  from numbers_map_fst[OF this]
  have "map fst col = take (min (length (index df)) (length cells)) (index df)"
    by (simp add: map_fst_zip_take)
  with assms(1) show ?thesis by simp
qed

lemma map_fst_dropna_distinct: "distinct (map fst s) \<Longrightarrow> distinct (map fst (dropna s))"
  unfolding dropna_def by (rule distinct_map_filter)

lemma map_fst_pct_change: "map fst (pct_change s) = map fst s"
  by (rule nth_equalityI) (simp_all add: length_pct_change pct_change_nth)

lemma map_fst_times100: "map fst (times100 s) = map fst s"
  by (induction s) (auto simp: times100_def)

lemma returns_of_distinct:
  assumes "distinct (map fst s)"
  shows "distinct (map fst (returns_of s))"
proof -
  have "distinct (map fst (pct_change s))" using assms by (simp add: map_fst_pct_change)
  then have "distinct (map fst (dropna (pct_change s)))" by (rule map_fst_dropna_distinct)
  then show ?thesis by (simp add: returns_of_def map_fst_times100)
qed

lemma returns_of_notna: "\<forall>(p, v) \<in> set (returns_of s). notna v"
  by (auto simp: returns_of_raw dropna_def)

lemma frame_returns:
  assumes "distinct (index df)" and "close_col df t = Inr col"
  shows "distinct (map fst (returns_of (dropna col)))"
  by (intro returns_of_distinct map_fst_dropna_distinct close_col_distinct[OF assms])

section \<open>The correlation loops\<close>

lemma fold_invariant:
  assumes "I s" and "\<And>x s. x \<in> set xs \<Longrightarrow> I s \<Longrightarrow> I (f x s)"
  shows "I (fold f xs s)"
  using assms by (induction xs arbitrary: s) auto

lemma set_dict_set: "set (dict_set kvs k v) \<subseteq> insert (k, v) (set kvs)"
  by (induction kvs) (auto split: if_splits)

lemma matrix_step_entries:
  assumes "p1 \<in> set (enumerate 0 valid)" and "p2 \<in> set (enumerate 0 valid)"
    and "\<forall>kv \<in> set c. matrix_entry L rd valid kv"
  shows "\<forall>kv \<in> set (matrix_step L rd p1 p2 c). matrix_entry L rd valid kv"
proof -
  obtain i t1 j t2 where p: "p1 = (i, t1)" "p2 = (j, t2)" by (cases p1, cases p2) auto
  with assms(1,2) have n: "i < length valid" "valid ! i = t1" "j < length valid" "valid ! j = t2"
    by (auto simp: in_set_enumerate_eq)
  show ?thesis
  proof (cases "i < j \<and> notna (corr_loc L rd t1 t2)")
    case True
    then have "matrix_entry L rd valid (t1 @ '','' @ t2, py_round 3 (corr_loc L rd t1 t2))"
      unfolding matrix_entry_def using n by auto
    with True assms(3) set_dict_set[of c "t1 @ '','' @ t2" "py_round 3 (corr_loc L rd t1 t2)"]
    show ?thesis unfolding p matrix_step_def by (auto simp: Let_def)
  next
    case False
    with assms(3) show ?thesis unfolding p matrix_step_def by (auto simp: Let_def)
  qed
qed

lemma matrix_loop_entries: "\<forall>kv \<in> set (matrix_loop L rd valid). matrix_entry L rd valid kv"
  unfolding matrix_loop_def
proof (rule fold_invariant[where I = "\<lambda>c. \<forall>kv \<in> set c. matrix_entry L rd valid kv"])
  show "\<forall>kv\<in>set []. matrix_entry L rd valid kv" by simp
next
  fix p1 c
  assume p1: "p1 \<in> set (enumerate 0 valid)" and c: "\<forall>kv\<in>set c. matrix_entry L rd valid kv"
  show "\<forall>kv\<in>set (fold (matrix_step L rd p1) (enumerate 0 valid) c). matrix_entry L rd valid kv"
    by (rule fold_invariant[where I = "\<lambda>c. \<forall>kv \<in> set c. matrix_entry L rd valid kv"])
       (use c p1 matrix_step_entries in blast)+
qed

lemma spy_step_entries:
  assumes "\<forall>kv \<in> set c. matrix_entry L rd valid kv \<or> spy_entry L spy_ret rd kv"
  shows "\<forall>kv \<in> set (spy_step L spy_ret rd t c). matrix_entry L rd valid kv \<or> spy_entry L spy_ret rd kv"
proof (cases "map_of rd t")
  case None
  with assms show ?thesis by (simp add: spy_step_def)
next
  case (Some s)
  show ?thesis
  proof (cases "12 < length (concat_dropna spy_ret s) \<and>
                notna (series_corr L (map snd (concat_dropna spy_ret s)))")
    case True
    with Some have "spy_entry L spy_ret rd
        (''SPY,'' @ t, py_round 3 (series_corr L (map snd (concat_dropna spy_ret s))))"
      unfolding spy_entry_def by auto
    with True Some assms
      set_dict_set[of c "''SPY,'' @ t" "py_round 3 (series_corr L (map snd (concat_dropna spy_ret s)))"]
    show ?thesis unfolding spy_step_def by (auto simp: Let_def)
  next
    case False
    with Some assms show ?thesis unfolding spy_step_def by (auto simp: Let_def)
  qed
qed

lemma final_correlations_entries:
  "\<forall>kv \<in> set (final_correlations L df spy_ret).
     matrix_entry L (loop_returns df) (map fst (loop_returns df)) kv \<or>
     spy_entry L spy_ret (loop_returns df) kv"
  unfolding final_correlations_def
  by (rule fold_invariant[where I = "\<lambda>c. \<forall>kv \<in> set c.
        matrix_entry L (loop_returns df) (map fst (loop_returns df)) kv \<or>
        spy_entry L spy_ret (loop_returns df) kv"])
     (use matrix_loop_entries spy_step_entries in blast)+

text \<open>
  No symbol of the registry contains a comma or is the benchmark's, so a key determines
  the pair it was written for.
\<close>

lemma one_comma_split:
  "comma_free x \<Longrightarrow> comma_free y \<Longrightarrow> a @ '','' @ b = x @ '','' @ y \<Longrightarrow> a = x \<and> b = y"
proof (induction x arbitrary: a)
  case Nil
  then show ?case by (cases a) (auto simp: comma_free_def)
next
  case (Cons c x)
  then show ?case by (cases a) (auto simp: comma_free_def)
qed

lemma registry_symbols:
  "t \<in> set ticker_list \<Longrightarrow> comma_free t \<and> t \<noteq> ''SPY''"
  unfolding ticker_list_def TICKERS_def comma_free_def by auto

lemma before_asym:
  assumes "distinct valid" and "before valid x y"
  shows "\<not> before valid y x \<and> x \<noteq> y"
proof -
  from assms(2) obtain i j where ij: "i < j" "j < length valid" "valid ! i = x" "valid ! j = y"
    unfolding before_def by blast
  have "x \<noteq> y" using ij assms(1) by (auto simp: nth_eq_iff_index_eq)
  moreover have "\<not> before valid y x"
  proof
    assume "before valid y x"
    then obtain k l where kl: "k < l" "l < length valid" "valid ! k = y" "valid ! l = x"
      unfolding before_def by blast
    with ij assms(1) have "k = j" "l = i" by (auto simp: nth_eq_iff_index_eq)
    with ij kl show False by simp
  qed
  ultimately show ?thesis by simp
qed

lemma correlation_key_form:
  assumes "kv \<in> set (final_correlations L df spy_ret)"
  shows "\<exists>x y. fst kv = x @ '','' @ y \<and> comma_free x \<and> comma_free y \<and>
           y \<in> set (map fst (loop_returns df)) \<and>
           (x = ''SPY'' \<or> before (map fst (loop_returns df)) x y)"
proof -
  let ?valid = "map fst (loop_returns df)"
  have cf: "\<And>t. t \<in> set ?valid \<Longrightarrow> comma_free t"
    using valid_tickers[of df] registry_symbols by blast
  from final_correlations_entries assms consider
    (m) "matrix_entry L (loop_returns df) ?valid kv" | (s) "spy_entry L spy_ret (loop_returns df) kv"
    by blast
  then show ?thesis
  proof cases
    case m
    then obtain i j where ij: "i < j" "j < length ?valid" "fst kv = ?valid ! i @ '','' @ ?valid ! j"
      unfolding matrix_entry_def by blast
    then have "?valid ! i \<in> set ?valid" "?valid ! j \<in> set ?valid" by (auto intro: nth_mem)
    moreover have "before ?valid (?valid ! i) (?valid ! j)" unfolding before_def using ij by blast
    ultimately show ?thesis using ij(3) cf by blast
  next
    case s
    then obtain t s' where t: "map_of (loop_returns df) t = Some s'" "fst kv = ''SPY,'' @ t"
      unfolding spy_entry_def by blast
    from map_of_SomeD[OF t(1)] have "t \<in> set ?valid" by force
    moreover have "comma_free ''SPY''" by (simp add: comma_free_def)
    ultimately show ?thesis using t(2) cf by (intro exI[of _ "''SPY''"] exI[of _ t]) simp
  qed
qed

lemma excluded_from_keys:
  assumes "t \<in> set ticker_list" and "t \<notin> set (map fst (loop_returns df))"
    and "k \<in> fst ` set (final_correlations L df spy_ret)"
  shows "k \<noteq> t @ '','' @ a \<and> k \<noteq> a @ '','' @ t"
proof -
  let ?valid = "map fst (loop_returns df)"
  from assms(3) obtain kv where "kv \<in> set (final_correlations L df spy_ret)" "k = fst kv"
    by auto
  from correlation_key_form[OF this(1)] this(2) obtain x y where
    xy: "k = x @ '','' @ y" "comma_free x" "comma_free y" "y \<in> set ?valid"
        "x = ''SPY'' \<or> before ?valid x y" by auto
  have x: "x \<noteq> t"
  proof
    assume "x = t"
    with xy(5) registry_symbols[OF assms(1)] have "before ?valid t y" by auto
    then have "t \<in> set ?valid" unfolding before_def by (metis nth_mem less_trans)
    with assms(2) show False by simp
  qed
  have y: "y \<noteq> t" using xy(4) assms(2) by auto
  show ?thesis
    using one_comma_split[OF xy(2,3), of t a] one_comma_split[OF xy(2,3), of a t] x y xy(1)
    by auto
qed

lemma matrix_key_entry:
  assumes "(a @ '','' @ b, v) \<in> set (final_correlations L df spy_ret)" and "a \<noteq> ''SPY''"
  shows "before (map fst (loop_returns df)) a b \<and>
         notna (corr_loc L (loop_returns df) a b) \<and>
         v = py_round 3 (corr_loc L (loop_returns df) a b)"
proof -
  let ?valid = "map fst (loop_returns df)"
  have cf: "\<And>t. t \<in> set ?valid \<Longrightarrow> comma_free t"
    using valid_tickers[of df] registry_symbols by blast
  from final_correlations_entries assms(1) consider
    (m) "matrix_entry L (loop_returns df) ?valid (a @ '','' @ b, v)"
    | (s) "spy_entry L spy_ret (loop_returns df) (a @ '','' @ b, v)"
    by blast
  then show ?thesis
  proof cases
    case m
    then obtain i j where ij: "i < j" "j < length ?valid" "a @ '','' @ b = ?valid ! i @ '','' @ ?valid ! j"
      "notna (corr_loc L (loop_returns df) (?valid ! i) (?valid ! j))"
      "v = py_round 3 (corr_loc L (loop_returns df) (?valid ! i) (?valid ! j))"
      unfolding matrix_entry_def by auto
    then have "comma_free (?valid ! i)" "comma_free (?valid ! j)" by (auto intro!: cf nth_mem)
    from one_comma_split[OF this ij(3)] have "a = ?valid ! i" "b = ?valid ! j" by auto
    with ij show ?thesis unfolding before_def by blast
  next
    case s
    then obtain t where "a @ '','' @ b = ''SPY,'' @ t" unfolding spy_entry_def by auto
    then have "a @ '','' @ b = ''SPY'' @ '','' @ t" by simp
    moreover
    from assms(1) correlation_key_form[of "(a @ '','' @ b, v)" L df spy_ret] obtain x y where
      "a @ '','' @ b = x @ '','' @ y" "comma_free x" "comma_free y" by auto
    from one_comma_split[OF this(2,3,1)] this(2,3) have "comma_free a" "comma_free b" by auto
    moreover have "comma_free ''SPY''" by (simp add: comma_free_def)
    ultimately have "a = ''SPY''"
      using one_comma_split[of a b "''SPY''" t] by metis
    with assms(2) show ?thesis by simp
  qed
qed

lemma spy_key_entry:
  assumes "(''SPY,'' @ t, v) \<in> set (final_correlations L df spy_ret)"
  shows "\<exists>s. map_of (loop_returns df) t = Some s \<and>
           12 < length (concat_dropna spy_ret s) \<and>
           notna (series_corr L (map snd (concat_dropna spy_ret s))) \<and>
           v = py_round 3 (series_corr L (map snd (concat_dropna spy_ret s)))"
proof -
  let ?valid = "map fst (loop_returns df)"
  have cf: "\<And>t. t \<in> set ?valid \<Longrightarrow> comma_free t \<and> t \<noteq> ''SPY''"
    using valid_tickers[of df] registry_symbols by blast
  have spy: "comma_free ''SPY''" by (simp add: comma_free_def)
  from final_correlations_entries assms(1) consider
    (m) "matrix_entry L (loop_returns df) ?valid (''SPY,'' @ t, v)"
    | (s) "spy_entry L spy_ret (loop_returns df) (''SPY,'' @ t, v)"
    by blast
  then show ?thesis
  proof cases
    case m
    then obtain i j where ij: "i < j" "j < length ?valid"
      "''SPY'' @ '','' @ t = ?valid ! i @ '','' @ ?valid ! j"
      unfolding matrix_entry_def by auto
    then have v: "?valid ! i \<in> set ?valid" "?valid ! j \<in> set ?valid" by (auto intro!: nth_mem)
    with cf have "comma_free (?valid ! i)" "comma_free (?valid ! j)" by blast+
    from one_comma_split[OF this ij(3)] have "''SPY'' = ?valid ! i" by simp
    with cf v(1) show ?thesis by metis
  next
    case s
    then obtain t' s' where t': "map_of (loop_returns df) t' = Some s'"
      "''SPY'' @ '','' @ t = ''SPY'' @ '','' @ t'"
      "12 < length (concat_dropna spy_ret s')"
      "notna (series_corr L (map snd (concat_dropna spy_ret s')))"
      "v = py_round 3 (series_corr L (map snd (concat_dropna spy_ret s')))"
      unfolding spy_entry_def by auto
    from t'(2) have "t = t'" by simp
    with t' show ?thesis by blast
  qed
qed

section \<open>Aligned rows and common periods\<close>

lemma reindex_cell: "reindex rows s = map (cell s) rows"
  by (simp add: reindex_def cell_def)

lemma zip_reindex: "zip (reindex rows a) (reindex rows b) = map (\<lambda>r. (cell a r, cell b r)) rows"
  by (simp add: reindex_cell zip_map_same)

lemma finite_obs_map_filter: "finite_obs ps = List.map_filter fin_pair ps"
  by (induction ps rule: finite_obs.induct) (simp_all add: List.map_filter_simps)

lemma map_filter_restrict:
  "(\<And>x. x \<in> set xs \<Longrightarrow> \<not> P x \<Longrightarrow> f x = None) \<Longrightarrow>
   List.map_filter f xs = List.map_filter f (filter P xs)"
  by (induction xs) (auto simp: List.map_filter_simps split: option.splits)

lemma matches_distinct:
  "distinct (map fst s) \<Longrightarrow>
   concat (map (\<lambda>(q, x). if q = p then F x else []) s) =
     (if p \<in> fst ` set s then F (cell s p) else [])"
proof (induction s)
  case Nil
  then show ?case by simp
next
  case (Cons e s)
  obtain q x where e: "e = (q, x)" by (cases e)
  with Cons show ?case by (auto simp: cell_def image_iff)
qed

lemma overlap_rows:
  assumes "distinct (map fst a)" and "distinct (map fst b)"
    and "set ps \<subseteq> fst ` set a \<inter> fst ` set b"
  shows "[(x, y). p \<leftarrow> ps, (q, x) \<leftarrow> a, q = p, (r, y) \<leftarrow> b, r = p] =
         map (\<lambda>p. (cell a p, cell b p)) ps"
  using assms(3)
proof (induction ps)
  case Nil
  then show ?case by simp
next
  case (Cons p ps)
  then have p: "p \<in> fst ` set a" "p \<in> fst ` set b" by auto
  have "concat (map (\<lambda>(q, x). if q = p
            then concat (map (\<lambda>(r, y). if r = p then [(x, y)] else []) b) else []) a) =
        concat (map (\<lambda>(r, y). if r = p then [(cell a p, y)] else []) b)"
    using matches_distinct[OF assms(1),
        of p "\<lambda>x. concat (map (\<lambda>(r, y). if r = p then [(x, y)] else []) b)"] p(1)
    by simp
  also have "\<dots> = [(cell a p, cell b p)]"
    using matches_distinct[OF assms(2), of p "\<lambda>y. [(cell a p, y)]"] p(2) by simp
  finally show ?case using Cons by simp
qed

lemma common_periods_props:
  "sorted (common_periods a b) \<and> distinct (common_periods a b) \<and>
   set (common_periods a b) = fst ` set a \<inter> fst ` set b"
  by (auto simp: common_periods_def)

lemma overlap_distinct:
  assumes "distinct (map fst a)" and "distinct (map fst b)"
  shows "overlap a b = map (\<lambda>p. (cell a p, cell b p)) (common_periods a b)"
  unfolding overlap_def
  by (rule overlap_rows[OF assms]) (simp add: common_periods_props)

lemma common_rows:
  assumes "sorted rows" and "distinct rows" and "fst ` set a \<subseteq> set rows"
  shows "filter (\<lambda>r. r \<in> fst ` set a \<and> r \<in> fst ` set b) rows = common_periods a b"
proof (rule sorted_distinct_set_unique)
  show "sorted (filter (\<lambda>r. r \<in> fst ` set a \<and> r \<in> fst ` set b) rows)"
    using assms(1) by (rule sorted_wrt_filter)
  show "distinct (filter (\<lambda>r. r \<in> fst ` set a \<and> r \<in> fst ` set b) rows)"
    using assms(2) by simp
  show "sorted (common_periods a b)" "distinct (common_periods a b)"
    by (simp_all add: common_periods_props)
  show "set (filter (\<lambda>r. r \<in> fst ` set a \<and> r \<in> fst ` set b) rows) = set (common_periods a b)"
    using assms(3) by (auto simp: common_periods_props)
qed

lemma snd_filter_zip:
  "map snd (filter (\<lambda>p. Q (snd p)) (zip rs (map g rs))) = filter Q (map g rs)"
  by (induction rs) auto

lemma union_index_props:
  "sorted (union_index ss) \<and> distinct (union_index ss) \<and>
   set (union_index ss) = (\<Union>s \<in> set ss. fst ` set s)"
  by (auto simp: union_index_def)

lemma cell_notna: "notna (cell s r) \<Longrightarrow> r \<in> fst ` set s"
  by (cases "map_of s r") (auto simp: cell_def notna_def dest!: map_of_SomeD intro: rev_image_eqI)

lemma cell_mem: "distinct (map fst s) \<Longrightarrow> (r, v) \<in> set s \<Longrightarrow> cell s r = v"
  by (simp add: cell_def)

text \<open>The rows that \<^verbatim>\<open>DataFrame.corr()\<close> uses for two columns, against the common periods.\<close>

lemma masked_rows_overlap:
  assumes "sorted rows" and "distinct rows" and "fst ` set a \<subseteq> set rows"
    and "distinct (map fst a)" and "distinct (map fst b)"
  shows "finite_obs (zip (reindex rows a) (reindex rows b)) = finite_obs (overlap a b)"
proof -
  let ?g = "\<lambda>r. (cell a r, cell b r)"
  let ?P = "\<lambda>r. r \<in> fst ` set a \<and> r \<in> fst ` set b"
  have none: "fin_pair (?g r) = None" if "\<not> ?P r" for r
  proof -
    from that cell_notna[of a r] cell_notna[of b r]
    have "cell a r = NaN \<or> cell b r = NaN" by (auto simp: notna_def elim: isna.elims)
    then show ?thesis by (cases "cell a r"; cases "cell b r") auto
  qed
  have "finite_obs (zip (reindex rows a) (reindex rows b)) = List.map_filter (fin_pair \<circ> ?g) rows"
    by (simp add: zip_reindex finite_obs_map_filter List.map_filter_def filter_map comp_def)
  also have "\<dots> = List.map_filter (fin_pair \<circ> ?g) (filter ?P rows)"
    by (rule map_filter_restrict) (use none in simp)
  also have "\<dots> = List.map_filter (fin_pair \<circ> ?g) (common_periods a b)"
    by (simp only: common_rows[OF assms(1,2,3)])
  also have "\<dots> = finite_obs (overlap a b)"
    by (simp add: overlap_distinct[OF assms(4,5)] finite_obs_map_filter List.map_filter_def
          filter_map comp_def)
  finally show ?thesis .
qed

text \<open>The rows that \<^verbatim>\<open>pd.concat(..., axis=1).dropna()\<close> keeps, against the common periods.\<close>

lemma concat_dropna_overlap:
  assumes "distinct (map fst a)" and "distinct (map fst b)"
    and "\<forall>(p, v) \<in> set a. notna v" and "\<forall>(p, v) \<in> set b. notna v"
  shows "map snd (concat_dropna a b) = overlap a b"
proof -
  let ?rows = "union_index [a, b]"
  let ?g = "\<lambda>r. (cell a r, cell b r)"
  let ?P = "\<lambda>r. r \<in> fst ` set a \<and> r \<in> fst ` set b"
  have rows: "sorted ?rows" "distinct ?rows" "set ?rows = fst ` set a \<union> fst ` set b"
    using union_index_props[of "[a, b]"] by auto
  have keep: "(notna (cell a r) \<and> notna (cell b r)) = ?P r" for r
  proof
    assume "notna (cell a r) \<and> notna (cell b r)"
    then show "?P r" using cell_notna by blast
  next
    assume "?P r"
    then obtain x y where "(r, x) \<in> set a" "(r, y) \<in> set b" by auto
    with assms cell_mem[of a r x] cell_mem[of b r y] show "notna (cell a r) \<and> notna (cell b r)"
      by auto
  qed
  have "map snd (concat_dropna a b) =
        filter (\<lambda>(x, y). notna x \<and> notna y) (map ?g ?rows)"
    unfolding concat_dropna_def Let_def zip_reindex case_prod_unfold
    by (rule snd_filter_zip[where Q = "\<lambda>p. notna (fst p) \<and> notna (snd p)"])
  also have "\<dots> = map ?g (filter ?P ?rows)"
    by (simp add: filter_map comp_def keep case_prod_unfold)
  also have "\<dots> = map ?g (common_periods a b)"
  proof -
    have "fst ` set a \<subseteq> set ?rows" using rows(3) by auto
    from common_rows[OF rows(1,2) this] show ?thesis by simp
  qed
  finally show ?thesis by (simp only: overlap_distinct[OF assms(1,2)])
qed

lemma corr_loc_overlap:
  assumes "map_of rd a = Some s1" and "map_of rd b = Some s2"
    and "distinct (map fst s1)" and "distinct (map fst s2)"
  shows "corr_loc L rd a b =
           (if length (finite_obs (overlap s1 s2)) < 1 then NaN
            else algos_nancorr L (finite_obs (overlap s1 s2)))"
proof -
  let ?rows = "union_index (map snd rd)"
  from map_of_SomeD[OF assms(1)] have "s1 \<in> set (map snd rd)" by force
  then have sub: "fst ` set s1 \<subseteq> set ?rows" using union_index_props[of "map snd rd"] by auto
  have d: "sorted ?rows" "distinct ?rows" using union_index_props by blast+
  have "corr_loc L rd a b = nancorr L (reindex ?rows s1) (reindex ?rows s2)"
    using assms(1,2) by (simp add: corr_loc_def Let_def)
  then show ?thesis
    by (simp add: nancorr_def Let_def masked_rows_overlap[OF d sub assms(3,4)])
qed

lemma length_overlap:
  assumes "distinct (map fst a)" and "distinct (map fst b)"
  shows "length (overlap a b) = card (fst ` set a \<inter> fst ` set b)"
proof -
  from common_periods_props[of a b] distinct_card[of "common_periods a b"]
  have "length (common_periods a b) = card (fst ` set a \<inter> fst ` set b)" by simp
  then show ?thesis by (simp add: overlap_distinct[OF assms])
qed

section \<open>The written bytes\<close>

lemma escape_plain: "c \<in> set ''0123456789-'' \<Longrightarrow> escape_char c = [c]"
  by (auto simp: escape_char_def)

lemma digit_plain: "digit n \<in> set ''0123456789-''"
proof -
  have "''0123456789'' ! (n mod 10) \<in> set ''0123456789''" by (rule nth_mem) simp
  then show ?thesis unfolding digit_def by auto
qed

lemma escape_all_plain:
  "(\<And>c. c \<in> set s \<Longrightarrow> escape_char c = [c]) \<Longrightarrow> concat (map escape_char s) = s"
  by (induction s) auto

lemma escape_isoformat10: "concat (map escape_char (isoformat10 now)) = isoformat10 now"
proof (rule escape_all_plain)
  fix c assume "c \<in> set (isoformat10 now)"
  then have "c \<in> set ''0123456789-''"
    using digit_plain by (cases now) (auto simp: pad4_def pad2_def)
  then show "escape_char c = [c]" by (rule escape_plain)
qed

lemma dumps_document:
  "dumps R (to_json d) = json_prefix @ concat (map escape_char (generated d)) @ document_rest R d"
  by (simp add: to_json_def quote_def escape_char_def json_prefix_def document_rest_def)

lemma document_rest_generated: "document_rest R (d\<lparr>generated := g\<rparr>) = document_rest R d"
  by (simp add: document_rest_def)

lemma document_layout:
  \<open>json_prefix @ concat (map escape_char (generated d)) @ document_rest R d =
     ''{"generated":"'' @ concat (map escape_char (generated d)) @
     ''","spy":'' @
     dumps R (JObject [(''dates'', JArray (map JString (dates (spy d)))),
                       (''returns'', JArray (map JNumber (returns (spy d))))]) @
     '',"tickers":'' @ dumps R (JObject (map (\<lambda>(t, e). (t, entry_json e)) (tickers d))) @
     '',"correlations":'' @ dumps R (JObject (map (\<lambda>(k, v). (k, JNumber v)) (correlations d))) @
     ''}''\<close>
  by (simp add: json_prefix_def document_rest_def quote_def escape_char_def)

lemma written_Some:
  assumes "written (main L df now) = Some text"
  shows "\<exists>col. \<not> df_empty df \<and> close_col df ''SPY'' = Inr col \<and>
           text = json_prefix @ isoformat10 now @
             document_rest (float_repr L)
               \<lparr>generated = isoformat10 now,
                spy = \<lparr>dates = map (\<lambda>(d, r). strftime_ym d) (returns_of (dropna col)),
                       returns = map (\<lambda>(d, r). py_round 4 r) (returns_of (dropna col))\<rparr>,
                tickers = loop_entries df,
                correlations = final_correlations L df (returns_of (dropna col))\<rparr>"
proof -
  from assms obtain d where d: "snd (build_data L df now) = Some d" "text = dumps (float_repr L) (to_json d)"
    by (auto simp: main_written)
  from build_data_cases[OF d(1)] obtain col where
    ne: "\<not> df_empty df" and spy: "close_col df ''SPY'' = Inr col" by blast
  from d(1) build_data_Some[OF ne spy, of L now]
  have "d = \<lparr>generated = isoformat10 now,
            spy = \<lparr>dates = map (\<lambda>(d, r). strftime_ym d) (returns_of (dropna col)),
                   returns = map (\<lambda>(d, r). py_round 4 r) (returns_of (dropna col))\<rparr>,
            tickers = loop_entries df,
            correlations = final_correlations L df (returns_of (dropna col))\<rparr>"
    by simp
  with d(2) ne spy show ?thesis
    by (auto simp: dumps_document escape_isoformat10)
qed

section \<open>The claims\<close>

text \<open>
  Claim C1, as the code has it. For every symbol whose series is retained (the benchmark
  and every registry symbol that passes), the dates and the returns of the output are the
  period labels and the values, rounded to 4 decimals by \<^verbatim>\<open>round\<close>, of those raw
  returns of the non-missing price series that are not NaN, in order; a raw return is
  (price[t] / price[t-1] - 1) x 100 as binary64 arithmetic evaluates it. A price series
  without any observation gives an empty return series. When the price series is not
  empty and no raw return is NaN, which is so when every price is finite and not zero, the
  return series is exactly one shorter than the price series, and its entry \<open>i\<close> is
  the rounded raw return of the prices \<open>i\<close> and \<open>i + 1\<close>, labelled by the year and
  month of period \<open>i + 1\<close>.
\<close>

theorem C1_return_series:
  assumes "data (main L df now) = Some d" and "(t, ds, rs) \<in> set (retained d)"
  shows "\<exists>col. close_col df t = Inr col \<and>
           ds = map (\<lambda>(p, v). strftime_ym p) (dropna (raw_returns (dropna col))) \<and>
           rs = map (\<lambda>(p, v). py_round 4 v) (dropna (raw_returns (dropna col))) \<and>
           (dropna col = [] \<longrightarrow> rs = []) \<and>
           ((\<forall>(p, v) \<in> set (dropna col). \<exists>x. v = Fin x \<and> x \<noteq> 0) \<longrightarrow>
              (\<forall>(p, v) \<in> set (raw_returns (dropna col)). notna v)) \<and>
           (dropna col \<noteq> [] \<and> (\<forall>(p, v) \<in> set (raw_returns (dropna col)). notna v) \<longrightarrow>
              length rs + 1 = length (dropna col) \<and>
              (\<forall>i < length rs.
                 rs ! i = py_round 4 (pct_return (snd (dropna col ! i)) (snd (dropna col ! Suc i))) \<and>
                 ds ! i = strftime_ym (fst (dropna col ! Suc i))))"
proof -
  from retained_series[OF assms] obtain col where
    c: "close_col df t = Inr col"
    and ds: "ds = map (\<lambda>(p, r). strftime_ym p) (dropna (raw_returns (dropna col)))"
    and rs: "rs = map (\<lambda>(p, r). py_round 4 r) (dropna (raw_returns (dropna col)))"
    by (auto simp: returns_of_raw)
  have e: "dropna col = [] \<longrightarrow> rs = []"
    by (simp add: rs raw_returns_def dropna_def)
  have f: "length rs + 1 = length (dropna col) \<and>
           (\<forall>i < length rs.
              rs ! i = py_round 4 (pct_return (snd (dropna col ! i)) (snd (dropna col ! Suc i))) \<and>
              ds ! i = strftime_ym (fst (dropna col ! Suc i)))"
    if ne: "dropna col \<noteq> []" and all: "\<forall>(p, v) \<in> set (raw_returns (dropna col)). notna v"
  proof -
    from all have keep: "dropna (raw_returns (dropna col)) = raw_returns (dropna col)"
      unfolding dropna_def[of "raw_returns (dropna col)"] by (auto intro: filter_True)
    have len: "length (raw_returns (dropna col)) = length (dropna col) - 1"
      by (simp add: raw_returns_def)
    from ne have "length (dropna col) - 1 + 1 = length (dropna col)"
      by (cases "dropna col") auto
    then show ?thesis
      unfolding ds rs keep by (auto simp: len) (simp_all add: raw_returns_def)
  qed
  from c ds rs e f raw_returns_defined[of "dropna col"] show ?thesis by blast
qed

text \<open>
  Claim C3. A registry symbol is a key of the \<^verbatim>\<open>tickers\<close> map if and only if its
  column is in the fetched table, is one that the script can compute with, and has at
  least 24 non-missing observations. A symbol with fewer is neither in \<^verbatim>\<open>tickers\<close>
  nor on either side of a key of \<^verbatim>\<open>correlations\<close>.
\<close>

theorem C3_tickers_membership:
  assumes "t \<in> set ticker_list" and "data (main L df now) = Some d"
  shows "(t \<in> fst ` set (tickers d)) =
           (\<exists>col. close_col df t = Inr col \<and> 24 \<le> length (dropna col)) \<and>
         ((\<forall>col. close_col df t = Inr col \<longrightarrow> length (dropna col) < 24) \<longrightarrow>
            t \<notin> fst ` set (tickers d) \<and>
            (\<forall>k \<in> fst ` set (correlations d). \<forall>a. k \<noteq> t @ '','' @ a \<and> k \<noteq> a @ '','' @ t))"
proof -
  from data_Some[OF assms(2)] obtain col where
    tk: "tickers d = loop_entries df"
    and co: "correlations d = final_correlations L df (returns_of (dropna col))" by blast
  let ?valid = "map fst (loop_returns df)"
  have keys: "fst ` set (tickers d) = set ?valid"
    using valid_tickers[of df] tk by (metis set_map)
  have iff: "(t \<in> fst ` set (tickers d)) =
           (\<exists>col. close_col df t = Inr col \<and> 24 \<le> length (dropna col))"
    using keys valid_iff[OF assms(1)] by simp
  have absent: "k \<noteq> t @ '','' @ a \<and> k \<noteq> a @ '','' @ t"
    if short: "t \<notin> set ?valid" and k: "k \<in> fst ` set (correlations d)" for k a
  proof -
    from k co obtain kv where "kv \<in> set (final_correlations L df (returns_of (dropna col)))" "k = fst kv"
      by auto
    from correlation_key_form[OF this(1)] this(2) obtain x y where
      xy: "k = x @ '','' @ y" "comma_free x" "comma_free y" "y \<in> set ?valid"
          "x = ''SPY'' \<or> before ?valid x y" by auto
    have x: "x \<noteq> t"
    proof
      assume "x = t"
      with xy(5) registry_symbols[OF assms(1)] have "before ?valid t y" by auto
      then have "t \<in> set ?valid" unfolding before_def by (metis nth_mem less_trans)
      with short show False by simp
    qed
    have y: "y \<noteq> t" using xy(4) short by auto
    show ?thesis
      using one_comma_split[OF xy(2,3), of t a] one_comma_split[OF xy(2,3), of a t] x y xy(1)
      by auto
  qed
  have "t \<notin> set ?valid" if "\<forall>col. close_col df t = Inr col \<longrightarrow> length (dropna col) < 24"
    using that valid_iff[OF assms(1), of df] by auto
  with iff keys absent show ?thesis by blast
qed

text \<open>
  Claim C4. Every key of \<^verbatim>\<open>correlations\<close> is "X,Y" for two symbols X before Y in
  the order of the \<^verbatim>\<open>tickers\<close> map, or "SPY,X" for a symbol X of that map. The
  map never holds both "A,B" and "B,A", and so never a key "A,A".
\<close>

theorem C4_upper_triangle_keys:
  assumes "data (main L df now) = Some d"
  shows "(\<forall>k \<in> fst ` set (correlations d).
           (\<exists>i j. i < j \<and> j < length (tickers d) \<and>
                  k = fst (tickers d ! i) @ '','' @ fst (tickers d ! j)) \<or>
           (\<exists>t \<in> fst ` set (tickers d). k = ''SPY,'' @ t)) \<and>
         (\<forall>a b. a @ '','' @ b \<in> fst ` set (correlations d) \<longrightarrow>
                b @ '','' @ a \<notin> fst ` set (correlations d))"
proof -
  from data_Some[OF assms] obtain col where
    tk: "tickers d = loop_entries df"
    and co: "correlations d = final_correlations L df (returns_of (dropna col))" by blast
  let ?valid = "map fst (loop_returns df)"
  let ?spy = "returns_of (dropna col)"
  have valid: "?valid = map fst (tickers d)" "distinct ?valid"
    using valid_tickers[of df] tk by auto
  have reg: "\<And>t. t \<in> set ?valid \<Longrightarrow> t \<in> set ticker_list"
    using valid_tickers[of df] by blast
  have shape: "(\<exists>i j. i < j \<and> j < length (tickers d) \<and>
                  k = fst (tickers d ! i) @ '','' @ fst (tickers d ! j)) \<or>
           (\<exists>t \<in> fst ` set (tickers d). k = ''SPY,'' @ t)"
    if "k \<in> fst ` set (correlations d)" for k
  proof -
    from that co obtain kv where kv: "kv \<in> set (final_correlations L df ?spy)" "k = fst kv" by auto
    from final_correlations_entries kv(1) consider
      (m) "matrix_entry L (loop_returns df) ?valid kv" | (s) "spy_entry L ?spy (loop_returns df) kv"
      by blast
    then show ?thesis
    proof cases
      case m
      then obtain i j where ij: "i < j" "j < length ?valid" "fst kv = ?valid ! i @ '','' @ ?valid ! j"
        unfolding matrix_entry_def by blast
      then have "i < length (tickers d)" "j < length (tickers d)" using valid(1) by auto
      with ij kv(2) valid(1) show ?thesis by (auto simp: nth_map)
    next
      case s
      then obtain t s' where t: "map_of (loop_returns df) t = Some s'" "fst kv = ''SPY,'' @ t"
        unfolding spy_entry_def by blast
      from map_of_SomeD[OF t(1)] have "t \<in> set ?valid" by force
      with valid(1) t(2) kv(2) show ?thesis by auto
    qed
  qed
  have once: "b @ '','' @ a \<notin> fst ` set (correlations d)"
    if "a @ '','' @ b \<in> fst ` set (correlations d)" for a b
  proof
    assume rev: "b @ '','' @ a \<in> fst ` set (correlations d)"
    from that co obtain kv where "kv \<in> set (final_correlations L df ?spy)" "a @ '','' @ b = fst kv"
      by auto
    from correlation_key_form[OF this(1)] this(2) obtain x y where
      xy: "a @ '','' @ b = x @ '','' @ y" "comma_free x" "comma_free y" "y \<in> set ?valid"
          "x = ''SPY'' \<or> before ?valid x y" by auto
    from one_comma_split[OF xy(2,3,1)] have ab: "a = x" "b = y" by auto
    from rev co obtain kv' where "kv' \<in> set (final_correlations L df ?spy)" "b @ '','' @ a = fst kv'"
      by auto
    from correlation_key_form[OF this(1)] this(2) obtain x' y' where
      xy': "b @ '','' @ a = x' @ '','' @ y'" "comma_free x'" "comma_free y'" "y' \<in> set ?valid"
           "x' = ''SPY'' \<or> before ?valid x' y'" by auto
    from one_comma_split[OF xy'(2,3,1)] have ba: "b = x'" "a = y'" by auto
    have a: "a \<noteq> ''SPY''" using ba(2) xy'(4) reg registry_symbols by blast
    have b: "b \<noteq> ''SPY''" using ab(2) xy(4) reg registry_symbols by blast
    from xy(5) xy'(5) ab ba a b have "before ?valid a b" "before ?valid b a" by auto
    with before_asym[OF valid(2)] show False by blast
  qed
  from shape once show ?thesis by blast
qed

text \<open>
  Claim C6. A key "SPY,X" is in \<^verbatim>\<open>correlations\<close> only when the return series of
  the benchmark and of X have at least 13 periods in common and the coefficient of the
  observations at these periods is defined. The rows of the fetched table are taken to
  have distinct labels.
\<close>

theorem C6_benchmark_overlap:
  assumes "data (main L df now) = Some d" and "distinct (index df)"
    and "(''SPY,'' @ x, v) \<in> set (correlations d)"
  shows "\<exists>cs cx. close_col df ''SPY'' = Inr cs \<and> close_col df x = Inr cx \<and>
           13 \<le> card (fst ` set (returns_of (dropna cs)) \<inter> fst ` set (returns_of (dropna cx))) \<and>
           notna (series_corr L (overlap (returns_of (dropna cs)) (returns_of (dropna cx))))"
proof -
  from data_Some[OF assms(1)] obtain cs where
    spy: "close_col df ''SPY'' = Inr cs"
    and co: "correlations d = final_correlations L df (returns_of (dropna cs))" by blast
  let ?spy = "returns_of (dropna cs)"
  from assms(3) co have "(''SPY,'' @ x, v) \<in> set (final_correlations L df ?spy)" by simp
  from spy_key_entry[OF this] obtain s where
    s: "map_of (loop_returns df) x = Some s" "12 < length (concat_dropna ?spy s)"
       "notna (series_corr L (map snd (concat_dropna ?spy s)))"
    by blast
  from loop_returns_lookup[OF s(1)] obtain cx where
    cx: "close_col df x = Inr cx" "s = returns_of (dropna cx)" by blast
  note ds = frame_returns[OF assms(2) spy] frame_returns[OF assms(2) cx(1)]
  have m: "map snd (concat_dropna ?spy s) = overlap ?spy s"
    unfolding cx(2) by (rule concat_dropna_overlap) (rule ds returns_of_notna)+
  from arg_cong[OF m, of length] have "length (concat_dropna ?spy s) = length (overlap ?spy s)"
    by simp
  with s(2) length_overlap[OF ds] cx(2)
  have "13 \<le> card (fst ` set ?spy \<inter> fst ` set (returns_of (dropna cx)))" by simp
  moreover from s(3) m cx(2)
  have "notna (series_corr L (overlap ?spy (returns_of (dropna cx))))" by simp
  ultimately show ?thesis using spy cx(1) by blast
qed

text \<open>
  Claim C7. When the fetched table is empty, or processing the benchmark raises, the job
  ends with exit code 1 and nothing is written.
\<close>

theorem C7_fatal_abort:
  assumes "df_empty df \<or> (\<exists>e. process_spy df = Inl e)"
  shows "exit_code (main L df now) = 1 \<and> written (main L df now) = None"
proof -
  from assms have "snd (build_data L df now) = None"
    by (auto simp: build_data_def Let_def)
  then show ?thesis by (simp add: main_exit_code main_written)
qed

text \<open>
  Claim C8. When the fetched table is not empty and processing the benchmark succeeds,
  the job ends with exit code 0 whatever happens to the registry symbols, and the file it
  writes is the serialised document: the date of the run, the benchmark's series, the
  \<^verbatim>\<open>tickers\<close> map and the \<^verbatim>\<open>correlations\<close> map, in this order. The keys of
  \<^verbatim>\<open>tickers\<close> are exactly the registry symbols without a failure, in the order of
  the registry. A symbol with a failure (it is not in the table, it has fewer than 24
  observations, or its processing raises) is not among them and is on neither side of a
  key of \<^verbatim>\<open>correlations\<close>, and its name followed by the reason is printed.
\<close>

theorem C8_symbol_failures_recoverable:
  assumes "\<not> df_empty df" and "process_spy df = Inr b"
  shows \<open>exit_code (main L df now) = 0 \<and>
         (\<exists>d. data (main L df now) = Some d \<and>
            written (main L df now) =
              Some (''{"generated":"'' @ isoformat10 now @
                    ''","spy":'' @
                    dumps (float_repr L)
                      (JObject [(''dates'', JArray (map JString (dates (spy d)))),
                                (''returns'', JArray (map JNumber (returns (spy d))))]) @
                    '',"tickers":'' @
                    dumps (float_repr L) (JObject (map (\<lambda>(t, e). (t, entry_json e)) (tickers d))) @
                    '',"correlations":'' @
                    dumps (float_repr L)
                      (JObject (map (\<lambda>(k, v). (k, JNumber v)) (correlations d))) @
                    ''}'') \<and>
            map fst (tickers d) = filter (\<lambda>t. symbol_failure df t = None) ticker_list \<and>
            (\<forall>t \<in> set ticker_list. \<forall>m. symbol_failure df t = Some m \<longrightarrow>
               t \<notin> fst ` set (tickers d) \<and>
               (\<forall>k \<in> fst ` set (correlations d). \<forall>a. k \<noteq> t @ '','' @ a \<and> k \<noteq> a @ '','' @ t) \<and>
               (\<exists>pre post. stdout (main L df now) = pre @ [Symbol t, m] @ post)))\<close>
proof -
  from assms(2) obtain col where spy: "close_col df ''SPY'' = Inr col"
    by (cases "close_col df ''SPY''") (auto simp: process_spy_Inl)
  note bd = build_data_Some[OF assms(1) spy, of L now]
  obtain out d where od: "build_data L df now = (out, Some d)" using bd by blast
  have tk: "tickers d = loop_entries df" using od bd by auto
  have co: "correlations d = final_correlations L df (returns_of (dropna col))"
    using od bd by auto
  have gen: "generated d = isoformat10 now" using od bd by auto
  have keys: "map fst (tickers d) = filter (\<lambda>t. symbol_failure df t = None) ticker_list"
    unfolding tk loop_entries_keys by (rule filter_cong) (auto simp: symbol_failure_None)
  have logged: "t \<notin> fst ` set (tickers d) \<and>
               (\<forall>k \<in> fst ` set (correlations d). \<forall>a. k \<noteq> t @ '','' @ a \<and> k \<noteq> a @ '','' @ t) \<and>
               (\<exists>pre post. stdout (main L df now) = pre @ [Symbol t, m] @ post)"
    if t: "t \<in> set ticker_list" and m: "symbol_failure df t = Some m" for t m
  proof -
    have out_t: "t \<notin> set (map fst (tickers d))" unfolding keys using m by simp
    then have "t \<notin> set (map fst (loop_returns df))"
      using valid_tickers[of df] tk by simp
    then have nokey: "\<forall>k \<in> fst ` set (correlations d). \<forall>a. k \<noteq> t @ '','' @ a \<and> k \<noteq> a @ '','' @ t"
      unfolding co using excluded_from_keys[OF t] by blast
    from t obtain xs ys where split: "ticker_list = xs @ t # ys" by (auto simp: in_set_conv_decomp)
    define pre where "pre = [Fetching, Downloading (length all_tickers), ProcessingSPY,
                  Months (length (returns_of (dropna col)))] @ concat (map (step_msgs df) xs)"
    define post where "post = concat (map (step_msgs df) ys) @
                  [ComputingCorrelation,
                   Pairs (length (matrix_loop L (loop_returns df) (map fst (loop_returns df)))),
                   Saved (length (tickers d)) (length (correlations d))
                     (length (dumps (float_repr L) (to_json d)))]"
    have msgs: "concat (map (step_msgs df) ticker_list) =
                concat (map (step_msgs df) xs) @ [Symbol t, m] @ concat (map (step_msgs df) ys)"
      by (simp add: split step_msgs_failure[OF m])
    have "out = [Fetching, Downloading (length all_tickers), ProcessingSPY,
                  Months (length (returns_of (dropna col)))]
                @ concat (map (step_msgs df) ticker_list)
                @ [ComputingCorrelation,
                   Pairs (length (matrix_loop L (loop_returns df) (map fst (loop_returns df))))]"
      using od bd by simp
    then have "stdout (main L df now) = pre @ [Symbol t, m] @ post"
      unfolding main_def od msgs pre_def post_def by (simp add: Let_def)
    then have "\<exists>pre post. stdout (main L df now) = pre @ [Symbol t, m] @ post"
      by blast
    with out_t nokey show ?thesis by simp
  qed
  have w: "written (main L df now) = Some (dumps (float_repr L) (to_json d))"
    using od by (simp add: main_written)
  have "dumps (float_repr L) (to_json d) =
          json_prefix @ isoformat10 now @ document_rest (float_repr L) d"
    by (simp add: dumps_document gen escape_isoformat10)
  also note document_layout[of d "float_repr L", unfolded gen escape_isoformat10]
  finally have bytes: \<open>dumps (float_repr L) (to_json d) =
     ''{"generated":"'' @ isoformat10 now @
     ''","spy":'' @
     dumps (float_repr L)
       (JObject [(''dates'', JArray (map JString (dates (spy d)))),
                 (''returns'', JArray (map JNumber (returns (spy d))))]) @
     '',"tickers":'' @
     dumps (float_repr L) (JObject (map (\<lambda>(t, e). (t, entry_json e)) (tickers d))) @
     '',"correlations":'' @
     dumps (float_repr L) (JObject (map (\<lambda>(k, v). (k, JNumber v)) (correlations d))) @
     ''}''\<close> .
  from od have "exit_code (main L df now) = 0" "data (main L df now) = Some d"
    by (simp_all add: main_exit_code main_data)
  with keys logged w bytes show ?thesis by (intro conjI exI[of _ d]) simp_all
qed

text \<open>
  Claim C9. Two runs on the same fetched table build the same document but for the date
  of generation, and write the same bytes but for that date: both outputs are the same
  prefix, the date of the run, and one and the same rest, the serialised benchmark series,
  \<^verbatim>\<open>tickers\<close> map and \<^verbatim>\<open>correlations\<close> map.
\<close>

theorem C9_same_dataset_same_output:
  assumes "written (main L df now1) = Some text1" and "written (main L df now2) = Some text2"
  shows "\<exists>d rest. data (main L df now1) = Some d \<and>
           data (main L df now2) = Some (d\<lparr>generated := isoformat10 now2\<rparr>) \<and>
           rest = document_rest (float_repr L) d \<and>
           text1 = json_prefix @ isoformat10 now1 @ rest \<and>
           text2 = json_prefix @ isoformat10 now2 @ rest"
proof -
  from assms(1) obtain d where d: "snd (build_data L df now1) = Some d"
    and t1: "text1 = dumps (float_repr L) (to_json d)"
    by (auto simp: main_written)
  from build_data_now[of L df now1 now1] d have g: "generated d = isoformat10 now1"
    by (cases d) auto
  from build_data_now[of L df now2 now1] d
  have d2: "snd (build_data L df now2) = Some (d\<lparr>generated := isoformat10 now2\<rparr>)" by simp
  with assms(2) have t2: "text2 = dumps (float_repr L) (to_json (d\<lparr>generated := isoformat10 now2\<rparr>))"
    by (simp add: main_written)
  have "text1 = json_prefix @ isoformat10 now1 @ document_rest (float_repr L) d"
    unfolding t1 by (simp add: dumps_document g escape_isoformat10)
  moreover have "text2 = json_prefix @ isoformat10 now2 @ document_rest (float_repr L) d"
    unfolding t2 by (simp add: dumps_document escape_isoformat10 document_rest_generated)
  ultimately show ?thesis using d d2 by (simp add: main_data)
qed

text \<open>
  Claim C10. For the benchmark and for every symbol of the \<^verbatim>\<open>tickers\<close> map, the
  \<^verbatim>\<open>dates\<close> and the \<^verbatim>\<open>returns\<close> have the same length, and the pair at each
  index is the label and the rounded value of one and the same entry of the symbol's
  return series.
\<close>

theorem C10_dates_label_returns:
  assumes "data (main L df now) = Some d" and "(t, ds, rs) \<in> set (retained d)"
  shows "length ds = length rs \<and>
         (\<exists>col. close_col df t = Inr col \<and>
            zip ds rs = map (\<lambda>(p, r). (strftime_ym p, py_round 4 r)) (returns_of (dropna col)))"
proof -
  from retained_series[OF assms] obtain col where
    c: "close_col df t = Inr col"
    and ds: "ds = map (\<lambda>(p, r). strftime_ym p) (returns_of (dropna col))"
    and rs: "rs = map (\<lambda>(p, r). py_round 4 r) (returns_of (dropna col))"
    by blast
  have "zip ds rs = map (\<lambda>(p, r). (strftime_ym p, py_round 4 r)) (returns_of (dropna col))"
    unfolding ds rs zip_map_same by (rule map_cong) auto
  with c ds rs show ?thesis by auto
qed

section \<open>The examples, evaluated\<close>

lemmas series_defs = close_col_def getitem_def dropna_def notna_def returns_of_def times100_def
  pct_change_def shift1_def b64_values

lemmas run_defs =
  build_data_def df_empty_def process_spy_def ticker_step_def ticker_list_def all_tickers_def
  TICKERS_def getitem_def present_def dropna_def notna_def returns_of_def times100_def
  pct_change_def shift1_def round_half_even_def pad4_def pad2_def digit_def matrix_loop_def
  matrix_step_def corr_loc_def union_index_def reindex_def nancorr_def spy_step_def
  concat_dropna_def series_corr_def Let_def example_library_def exact_pearson_def mean_def
  b64_values

lemma sqrt_up_down: "sqrt (8820900000000 / 529) = 2970000 / 23"
  by (rule real_sqrt_unique) (simp_all add: power2_eq_square)

lemma sqrt_zero_start: "sqrt (680625000000 / 49) = 825000 / 7"
  by (rule real_sqrt_unique) (simp_all add: power2_eq_square)

lemma example_run:
  "snd (build_data example_library example_frame (2024, 3, 5)) = Some example_document"
  by (simp add: run_defs example_frame_def example_index_def up_down_def down_up_def
        short_history_def no_numbers_def example_document_def example_dates_def returns_up_def
        returns_down_def sqrt_up_down)

lemma zero_price_run:
  "snd (build_data example_library zero_price_frame (2024, 3, 5)) = Some zero_price_document"
  by (simp add: run_defs zero_price_frame_def example_index_def up_down_def down_up_def
        zero_start_def zero_price_document_def example_dates_def zero_start_dates_def returns_up_def
        returns_down_def returns_zero_start_def sqrt_up_down sqrt_zero_start)

lemma blank_spy_run:
  "snd (build_data example_library blank_spy_frame (2024, 3, 5)) = Some blank_spy_document"
  by (simp add: run_defs blank_spy_frame_def blank_spy_document_def)

lemma rounding_steps:
  "b64 (6009785316335633 / 140737488355328 / 42) = Fin (4578884050541435 / 4503599627370496)"
  "b64 (4578884050541435 / 4503599627370496 - 1) = Fin (75284423170939 / 4503599627370496)"
  "b64 (75284423170939 / 4503599627370496 * 100) = Fin (1882110579273475 / 1125899906842624)"
  "b64 (16717 / 10 ^ 4) = Fin (3764333748537629 / 2251799813685248)"
  using b64_normal[of "6009785316335633 / 140737488355328 / 42" 52]
    b64_normal[of "4578884050541435 / 4503599627370496 - 1" 58]
    b64_normal[of "75284423170939 / 4503599627370496 * 100" 52]
    b64_normal[of "16717 / 10 ^ 4" 52]
  by (simp_all add: round_half_even_def)

lemma rounding_run:
  "snd (build_data example_library rounding_frame (2024, 3, 5)) = Some rounding_document"
  using rounding_steps
  by (simp add: run_defs rounding_frame_def rounding_document_def)

lemma example_data:
  "data (main example_library example_frame (2024, 3, 5)) = Some example_document"
  by (simp add: main_data example_run)

lemma zero_price_data:
  "data (main example_library zero_price_frame (2024, 3, 5)) = Some zero_price_document"
  by (simp add: main_data zero_price_run)

lemma blank_spy_data:
  "data (main example_library blank_spy_frame (2024, 3, 5)) = Some blank_spy_document"
  by (simp add: main_data blank_spy_run)

lemma rounding_data:
  "data (main example_library rounding_frame (2024, 3, 5)) = Some rounding_document"
  by (simp add: main_data rounding_run)

lemma example_close_cols:
  "close_col example_frame ''SPY'' = Inr (zip example_index up_down)"
  "close_col example_frame ''AAPL'' = Inr (zip example_index up_down)"
  "close_col example_frame ''MSFT'' = Inr (zip example_index down_up)"
  "close_col example_frame ''TSLA'' = Inr (zip example_index short_history)"
  "close_col example_frame ''GOOGL'' = Inl KeyError"
  "close_col example_frame ''NVDA'' = Inl TypeError"
  by (simp_all add: example_frame_def close_col_def getitem_def example_index_def up_down_def
        down_up_def short_history_def no_numbers_def)

lemma zero_price_close_cols:
  "close_col zero_price_frame ''AAPL'' = Inr (zip example_index zero_start)"
  "close_col zero_price_frame ''MSFT'' = Inr (zip example_index down_up)"
  by (simp_all add: zero_price_frame_def close_col_def getitem_def example_index_def
        zero_start_def down_up_def)

lemma example_index_distinct: "distinct example_index"
  by (simp add: example_index_def)

lemma example_returns:
  "returns_of (dropna (zip example_index up_down)) = returns_up"
  "returns_of (dropna (zip example_index down_up)) = returns_down"
  "returns_of (dropna (zip example_index zero_start)) = returns_zero_start"
  by (simp_all add: example_index_def up_down_def down_up_def zero_start_def dropna_def notna_def
        returns_of_def times100_def pct_change_def shift1_def b64_values
        returns_up_def returns_down_def returns_zero_start_def)

lemma example_lengths:
  "length (dropna (zip example_index up_down)) = 24"
  "length (dropna (zip example_index short_history)) = 10"
  by (simp_all add: example_index_def up_down_def short_history_def dropna_def notna_def)

lemma zero_price_loop:
  "fst (fold (ticker_step zero_price_frame) ticker_list ([], [], [])) =
     [(''AAPL'', returns_zero_start), (''MSFT'', returns_down)]"
  unfolding ticker_loop_main fst_conv
  by (simp add: loop_returns_def ticker_list_def TICKERS_def processed_def
        zero_price_frame_def example_index_def zero_start_def down_up_def series_defs
        returns_zero_start_def returns_down_def)

lemma zero_price_overlap:
  "overlap returns_zero_start returns_down =
     zip (map snd returns_zero_start) (map snd (tl returns_down))"
  "overlap returns_up returns_zero_start =
     zip (map snd (tl returns_up)) (map snd returns_zero_start)"
  by (simp_all add: overlap_def common_periods_def returns_zero_start_def returns_down_def
        returns_up_def)

lemma example_rest_bytes:
  "document_rest example_repr (example_document\<lparr>generated := g\<rparr>) = example_rest"
  by (simp add: document_rest_def example_document_def example_dates_def returns_up_def
        returns_down_def entry_json_def quote_def escape_char_def example_repr_def
        example_rest_def)

lemma example_written:
  "written (main example_library example_frame now) = Some (example_output (isoformat10 now))"
proof -
  have "snd (build_data example_library example_frame now) =
          Some (example_document\<lparr>generated := isoformat10 now\<rparr>)"
    using build_data_now[of example_library example_frame now "(2024, 3, 5)"]
    by (simp add: example_run)
  then show ?thesis
    by (simp add: main_written dumps_document escape_isoformat10 example_rest_bytes
          example_output_def example_library_def)
qed

lemma example_stamps:
  "isoformat10 (2024, 3, 5) = ''2024-03-05''" "isoformat10 (2025, 2, 7) = ''2025-02-07''"
  by (simp_all add: pad4_def pad2_def digit_def)

text \<open>
  Claim C1 on AAPL in \<open>example_frame\<close>: 24 prices, 23 returns.
\<close>

theorem C1_return_series_witness:
  "data (main example_library example_frame (2024, 3, 5)) = Some example_document \<and>
   (''AAPL'', example_dates, map snd returns_up) \<in> set (retained example_document) \<and>
   length (dropna (zip example_index up_down)) = 24 \<and>
   length (map snd returns_up) = 23 \<and>
   (\<exists>col. close_col example_frame ''AAPL'' = Inr col \<and>
      example_dates = map (\<lambda>(p, v). strftime_ym p) (dropna (raw_returns (dropna col))) \<and>
      map snd returns_up = map (\<lambda>(p, v). py_round 4 v) (dropna (raw_returns (dropna col))) \<and>
      (dropna col = [] \<longrightarrow> map snd returns_up = []) \<and>
      ((\<forall>(p, v) \<in> set (dropna col). \<exists>x. v = Fin x \<and> x \<noteq> 0) \<longrightarrow>
         (\<forall>(p, v) \<in> set (raw_returns (dropna col)). notna v)) \<and>
      (dropna col \<noteq> [] \<and> (\<forall>(p, v) \<in> set (raw_returns (dropna col)). notna v) \<longrightarrow>
         length (map snd returns_up) + 1 = length (dropna col) \<and>
         (\<forall>i < length (map snd returns_up).
            map snd returns_up ! i =
              py_round 4 (pct_return (snd (dropna col ! i)) (snd (dropna col ! Suc i))) \<and>
            example_dates ! i = strftime_ym (fst (dropna col ! Suc i)))))"
proof -
  have h: "(''AAPL'', example_dates, map snd returns_up) \<in> set (retained example_document)"
    by (simp add: retained_def example_document_def)
  have "length (map snd returns_up) = 23" by (simp add: returns_up_def)
  with C1_return_series[OF example_data h] example_data h example_lengths(1)
  show ?thesis by blast
qed

text \<open>
  Claim C1 as the specification states it fails on \<open>blank_spy_frame\<close>: the job
  runs to its end and retains the benchmark, whose price series has no observation; its
  return series has length 0, which is not one less than 0. It fails on
  \<open>zero_price_frame\<close>: AAPL has 24 prices and 22 returns, the raw return of its
  first two prices being NaN. And it fails on \<open>rounding_frame\<close>: the return of the
  two prices, rounded to 4 decimal places, is 1.6716, and the script writes the float
  1.6717, since the product that \<^verbatim>\<open>round\<close> is given lies above 1.67165 where
  the exact return lies below.
\<close>

theorem C1_return_series_counterexample:
  "data (main example_library blank_spy_frame (2024, 3, 5)) = Some blank_spy_document \<and>
   (''SPY'', [], []) \<in> set (retained blank_spy_document) \<and>
   close_col blank_spy_frame ''SPY'' = Inr [((2024, 1, 1), NaN)] \<and>
   dropna [((2024, 1, 1), NaN)] = [] \<and>
   int (length ([] :: fl list)) \<noteq> int (length ([] :: series)) - 1 \<and>
   data (main example_library zero_price_frame (2024, 3, 5)) = Some zero_price_document \<and>
   (''AAPL'', zero_start_dates, map snd returns_zero_start) \<in> set (retained zero_price_document) \<and>
   close_col zero_price_frame ''AAPL'' = Inr (zip example_index zero_start) \<and>
   length (dropna (zip example_index zero_start)) = 24 \<and>
   length (map snd returns_zero_start) = 22 \<and>
   pct_return (Fin 0) (Fin 0) = NaN \<and>
   data (main example_library rounding_frame (2024, 3, 5)) = Some rounding_document \<and>
   (''SPY'', [''2024-02''], [Fin (3764333748537629 / 2251799813685248)])
     \<in> set (retained rounding_document) \<and>
   close_col rounding_frame ''SPY'' =
     Inr [((2024, 1, 31), Fin 42), ((2024, 2, 29), Fin (6009785316335633 / 140737488355328))] \<and>
   b64 (16717 / 10 ^ 4) = Fin (3764333748537629 / 2251799813685248) \<and>
   spec_return 42 (6009785316335633 / 140737488355328) = 16716 / 10 ^ 4 \<and>
   b64 (16716 / 10 ^ 4) = Fin (7528217137112521 / 4503599627370496) \<and>
   Fin (3764333748537629 / 2251799813685248) \<noteq> Fin (7528217137112521 / 4503599627370496)"
proof -
  have a: "(''SPY'', [], []) \<in> set (retained blank_spy_document)"
    by (simp add: retained_def blank_spy_document_def)
  have b: "close_col blank_spy_frame ''SPY'' = Inr [((2024, 1, 1), NaN)]"
    by (simp add: blank_spy_frame_def close_col_def getitem_def)
  have c: "dropna [((2024, 1, 1), NaN)] = []"
    by (simp add: dropna_def notna_def)
  have d: "(''AAPL'', zero_start_dates, map snd returns_zero_start)
             \<in> set (retained zero_price_document)"
    by (simp add: retained_def zero_price_document_def)
  have e: "length (dropna (zip example_index zero_start)) = 24"
    "length (map snd returns_zero_start) = 22"
    "pct_return (Fin 0) (Fin 0) = NaN"
    by (simp_all add: example_index_def zero_start_def dropna_def notna_def
          returns_zero_start_def pct_return_def)
  have f: "(''SPY'', [''2024-02''], [Fin (3764333748537629 / 2251799813685248)])
             \<in> set (retained rounding_document)"
    by (simp add: retained_def rounding_document_def)
  have g: "close_col rounding_frame ''SPY'' =
     Inr [((2024, 1, 31), Fin 42), ((2024, 2, 29), Fin (6009785316335633 / 140737488355328))]"
    by (simp add: rounding_frame_def close_col_def getitem_def)
  have h: "spec_return 42 (6009785316335633 / 140737488355328) = 16716 / 10 ^ 4"
    by (simp add: spec_return_def round_half_even_def)
  have i: "b64 (16716 / 10 ^ 4) = Fin (7528217137112521 / 4503599627370496)"
    using b64_normal[of "16716 / 10 ^ 4" 52] by (simp add: round_half_even_def)
  have j: "Fin (3764333748537629 / 2251799813685248) \<noteq> Fin (7528217137112521 / 4503599627370496)"
    by simp
  show ?thesis
    by (intro conjI)
       (rule blank_spy_data a b c zero_price_data d zero_price_close_cols(1) e rounding_data f g
          rounding_steps(4) h i j | simp)+
qed

text \<open>
  Claim C2 against the code on \<open>zero_price_frame\<close>, whatever the library computes.
  The return series of AAPL and of MSFT have 22 periods in common, at the first of which
  the return of AAPL is infinite. The coefficient that the matrix loop writes for the pair
  is the one of the 21 observations where both returns are finite, not of the 22 at the
  periods present in both series. The benchmark loop, for the same return series of AAPL,
  hands all 22 common observations to the coefficient. With the library of the examples
  the pair is written with the value -1, and the benchmark pair of AAPL is left out.
\<close>

theorem C2_matrix_leaves_out_infinite_return:
  "fst (fold (ticker_step zero_price_frame) ticker_list ([], [], [])) =
     [(''AAPL'', returns_zero_start), (''MSFT'', returns_down)] \<and>
   length (overlap returns_zero_start returns_down) = 22 \<and>
   hd (overlap returns_zero_start returns_down) = (PInf, Fin 100) \<and>
   length (finite_obs (overlap returns_zero_start returns_down)) = 21 \<and>
   corr_loc L [(''AAPL'', returns_zero_start), (''MSFT'', returns_down)] ''AAPL'' ''MSFT'' =
     algos_nancorr L (finite_obs (overlap returns_zero_start returns_down)) \<and>
   matrix_loop L [(''AAPL'', returns_zero_start), (''MSFT'', returns_down)] [''AAPL'', ''MSFT''] =
     (if notna (algos_nancorr L (finite_obs (overlap returns_zero_start returns_down)))
      then [(''AAPL,MSFT'',
             py_round 3 (algos_nancorr L (finite_obs (overlap returns_zero_start returns_down))))]
      else []) \<and>
   map snd (concat_dropna returns_up returns_zero_start) = overlap returns_up returns_zero_start \<and>
   length (overlap returns_up returns_zero_start) = 22 \<and>
   hd (overlap returns_up returns_zero_start) = (Fin (- 50), PInf) \<and>
   data (main example_library zero_price_frame (2024, 3, 5)) = Some zero_price_document \<and>
   correlations zero_price_document = [(''AAPL,MSFT'', Fin (- 1)), (''SPY,MSFT'', Fin (- 1))]"
proof -
  have d: "distinct (map fst returns_zero_start)" "distinct (map fst returns_down)"
    "distinct (map fst returns_up)"
    by (simp_all add: returns_zero_start_def returns_down_def returns_up_def)
  have n: "\<forall>(p, v) \<in> set returns_up. notna v" "\<forall>(p, v) \<in> set returns_zero_start. notna v"
    by (simp_all add: returns_up_def returns_zero_start_def notna_def)
  have l: "length (overlap returns_zero_start returns_down) = 22"
    "hd (overlap returns_zero_start returns_down) = (PInf, Fin 100)"
    "length (finite_obs (overlap returns_zero_start returns_down)) = 21"
    "length (overlap returns_up returns_zero_start) = 22"
    "hd (overlap returns_up returns_zero_start) = (Fin (- 50), PInf)"
    unfolding zero_price_overlap
    by (simp_all add: returns_zero_start_def returns_down_def returns_up_def)
  have c: "corr_loc L [(''AAPL'', returns_zero_start), (''MSFT'', returns_down)] ''AAPL'' ''MSFT'' =
     algos_nancorr L (finite_obs (overlap returns_zero_start returns_down))"
    using corr_loc_overlap[of "[(''AAPL'', returns_zero_start), (''MSFT'', returns_down)]"
            "''AAPL''" returns_zero_start "''MSFT''" returns_down L, OF _ _ d(1,2)] l(3)
    by simp
  have m: "matrix_loop L [(''AAPL'', returns_zero_start), (''MSFT'', returns_down)]
             [''AAPL'', ''MSFT''] =
     (if notna (algos_nancorr L (finite_obs (overlap returns_zero_start returns_down)))
      then [(''AAPL,MSFT'',
             py_round 3 (algos_nancorr L (finite_obs (overlap returns_zero_start returns_down))))]
      else [])"
    by (simp add: matrix_loop_def matrix_step_def c Let_def)
  have s: "map snd (concat_dropna returns_up returns_zero_start) =
             overlap returns_up returns_zero_start"
    by (rule concat_dropna_overlap[OF d(3,1) n])
  have k: "correlations zero_price_document = [(''AAPL,MSFT'', Fin (- 1)), (''SPY,MSFT'', Fin (- 1))]"
    by (simp add: zero_price_document_def)
  show ?thesis
    by (intro conjI) (rule zero_price_loop l c m s zero_price_data k)+
qed

text \<open>Claim C3 on TSLA, with 10 observations, and AAPL, with 24, in \<open>example_frame\<close>.\<close>

theorem C3_tickers_membership_witness:
  "''TSLA'' \<in> set ticker_list \<and> ''AAPL'' \<in> set ticker_list \<and>
   data (main example_library example_frame (2024, 3, 5)) = Some example_document \<and>
   close_col example_frame ''TSLA'' = Inr (zip example_index short_history) \<and>
   length (dropna (zip example_index short_history)) = 10 \<and>
   ''TSLA'' \<notin> fst ` set (tickers example_document) \<and>
   ''TSLA,AAPL'' \<notin> fst ` set (correlations example_document) \<and>
   ''AAPL,TSLA'' \<notin> fst ` set (correlations example_document) \<and>
   ''SPY,TSLA'' \<notin> fst ` set (correlations example_document) \<and>
   close_col example_frame ''AAPL'' = Inr (zip example_index up_down) \<and>
   length (dropna (zip example_index up_down)) = 24 \<and>
   ''AAPL'' \<in> fst ` set (tickers example_document)"
proof -
  have t: "''TSLA'' \<in> set ticker_list" "''AAPL'' \<in> set ticker_list"
    by (simp_all add: ticker_list_def TICKERS_def)
  have short: "\<forall>col. close_col example_frame ''TSLA'' = Inr col \<longrightarrow> length (dropna col) < 24"
    by (simp add: example_close_cols example_lengths)
  have long: "\<exists>col. close_col example_frame ''AAPL'' = Inr col \<and> 24 \<le> length (dropna col)"
    by (simp add: example_close_cols example_lengths)
  from C3_tickers_membership[OF t(1) example_data] short
  have a: "''TSLA'' \<notin> fst ` set (tickers example_document)"
    and b: "\<forall>k \<in> fst ` set (correlations example_document).
              \<forall>a. k \<noteq> ''TSLA'' @ '','' @ a \<and> k \<noteq> a @ '','' @ ''TSLA''"
    by blast+
  from b have "''TSLA'' @ '','' @ ''AAPL'' \<notin> fst ` set (correlations example_document)"
    "''AAPL'' @ '','' @ ''TSLA'' \<notin> fst ` set (correlations example_document)"
    "''SPY'' @ '','' @ ''TSLA'' \<notin> fst ` set (correlations example_document)"
    by blast+
  then have c: "''TSLA,AAPL'' \<notin> fst ` set (correlations example_document)"
    "''AAPL,TSLA'' \<notin> fst ` set (correlations example_document)"
    "''SPY,TSLA'' \<notin> fst ` set (correlations example_document)"
    by simp_all
  from C3_tickers_membership[OF t(2) example_data] long
  have d: "''AAPL'' \<in> fst ` set (tickers example_document)" by blast
  from t example_data example_close_cols(2,4) example_lengths a c d show ?thesis by simp
qed

text \<open>Claim C4 on \<open>example_frame\<close>.\<close>

theorem C4_upper_triangle_keys_witness:
  "data (main example_library example_frame (2024, 3, 5)) = Some example_document \<and>
   map fst (tickers example_document) = [''AAPL'', ''MSFT''] \<and>
   map fst (correlations example_document) = [''AAPL,MSFT'', ''SPY,AAPL'', ''SPY,MSFT''] \<and>
   ''MSFT,AAPL'' \<notin> fst ` set (correlations example_document) \<and>
   ''AAPL,AAPL'' \<notin> fst ` set (correlations example_document) \<and>
   ''AAPL,SPY'' \<notin> fst ` set (correlations example_document)"
proof -
  have k: "''AAPL'' @ '','' @ ''MSFT'' \<in> fst ` set (correlations example_document)"
    "''SPY'' @ '','' @ ''AAPL'' \<in> fst ` set (correlations example_document)"
    by (simp_all add: example_document_def)
  from C4_upper_triangle_keys[OF example_data]
  have once: "\<And>a b. a @ '','' @ b \<in> fst ` set (correlations example_document) \<Longrightarrow>
                b @ '','' @ a \<notin> fst ` set (correlations example_document)"
    by blast
  from once[OF k(1)] once[OF k(2)]
  have a: "''MSFT,AAPL'' \<notin> fst ` set (correlations example_document)"
    "''AAPL,SPY'' \<notin> fst ` set (correlations example_document)"
    by simp_all
  have b: "''AAPL,AAPL'' \<notin> fst ` set (correlations example_document)"
    using once[of "''AAPL''" "''AAPL''"] by auto
  have "map fst (tickers example_document) = [''AAPL'', ''MSFT'']"
    "map fst (correlations example_document) = [''AAPL,MSFT'', ''SPY,AAPL'', ''SPY,MSFT'']"
    by (simp_all add: example_document_def)
  with example_data a b show ?thesis by simp
qed

text \<open>Claim C6 on the benchmark and AAPL in \<open>example_frame\<close>.\<close>

theorem C6_benchmark_overlap_witness:
  "data (main example_library example_frame (2024, 3, 5)) = Some example_document \<and>
   distinct (index example_frame) \<and>
   (''SPY,'' @ ''AAPL'', Fin 1) \<in> set (correlations example_document) \<and>
   (\<exists>cs cx. close_col example_frame ''SPY'' = Inr cs \<and>
      close_col example_frame ''AAPL'' = Inr cx \<and>
      13 \<le> card (fst ` set (returns_of (dropna cs)) \<inter> fst ` set (returns_of (dropna cx))) \<and>
      notna (series_corr example_library (overlap (returns_of (dropna cs)) (returns_of (dropna cx)))))"
proof -
  have d: "distinct (index example_frame)"
    by (simp add: example_frame_def example_index_distinct)
  have h: "(''SPY,'' @ ''AAPL'', Fin 1) \<in> set (correlations example_document)"
    by (simp add: example_document_def)
  from C6_benchmark_overlap[OF example_data d h] example_data d h show ?thesis by blast
qed

text \<open>Claim C7 on the empty table and on a table without the benchmark's column.\<close>

theorem C7_fatal_abort_witness:
  "df_empty empty_frame \<and>
   exit_code (main example_library empty_frame (2024, 3, 5)) = 1 \<and>
   written (main example_library empty_frame (2024, 3, 5)) = None \<and>
   \<not> df_empty no_spy_frame \<and>
   process_spy no_spy_frame = Inl KeyError \<and>
   exit_code (main example_library no_spy_frame (2024, 3, 5)) = 1 \<and>
   written (main example_library no_spy_frame (2024, 3, 5)) = None"
proof -
  have a: "df_empty empty_frame" by (simp add: df_empty_def empty_frame_def)
  have b: "\<not> df_empty no_spy_frame" by (simp add: df_empty_def no_spy_frame_def)
  have c: "process_spy no_spy_frame = Inl KeyError"
    by (simp add: process_spy_def getitem_def no_spy_frame_def)
  from a have a': "df_empty empty_frame \<or> (\<exists>e. process_spy empty_frame = Inl e)" by simp
  from c have c': "df_empty no_spy_frame \<or> (\<exists>e. process_spy no_spy_frame = Inl e)" by simp
  from C7_fatal_abort[OF a', of example_library "(2024, 3, 5)"]
       C7_fatal_abort[OF c', of example_library "(2024, 3, 5)"] a b c
  show ?thesis by simp
qed

text \<open>
  Claim C8 on \<open>example_frame\<close>, where GOOGL, like most of the registry, is not in
  the table, TSLA has a short history, and the processing of NVDA raises.
\<close>

theorem C8_symbol_failures_recoverable_witness:
  "\<not> df_empty example_frame \<and>
   process_spy example_frame =
     Inr (returns_up, \<lparr>dates = example_dates, returns = map snd returns_up\<rparr>) \<and>
   symbol_failure example_frame ''GOOGL'' = Some NotInData \<and>
   symbol_failure example_frame ''TSLA'' = Some (OnlyMonths 10) \<and>
   symbol_failure example_frame ''NVDA'' = Some (FailedWith TypeError) \<and>
   exit_code (main example_library example_frame (2024, 3, 5)) = 0 \<and>
   data (main example_library example_frame (2024, 3, 5)) = Some example_document \<and>
   written (main example_library example_frame (2024, 3, 5)) =
     Some (example_output ''2024-03-05'') \<and>
   filter (\<lambda>t. symbol_failure example_frame t = None) ticker_list = [''AAPL'', ''MSFT''] \<and>
   ''GOOGL'' \<notin> fst ` set (tickers example_document) \<and>
   ''TSLA'' \<notin> fst ` set (tickers example_document) \<and>
   ''NVDA'' \<notin> fst ` set (tickers example_document) \<and>
   (\<exists>pre post. stdout (main example_library example_frame (2024, 3, 5)) =
      pre @ [Symbol ''GOOGL'', NotInData] @ post) \<and>
   (\<exists>pre post. stdout (main example_library example_frame (2024, 3, 5)) =
      pre @ [Symbol ''TSLA'', OnlyMonths 10] @ post) \<and>
   (\<exists>pre post. stdout (main example_library example_frame (2024, 3, 5)) =
      pre @ [Symbol ''NVDA'', FailedWith TypeError] @ post)"
proof -
  have ne: "\<not> df_empty example_frame"
    by (simp add: df_empty_def example_frame_def example_index_def)
  have spy: "process_spy example_frame =
     Inr (returns_up, \<lparr>dates = example_dates, returns = map snd returns_up\<rparr>)"
    by (simp add: process_spy_Inr[OF example_close_cols(1)] example_returns)
       (simp add: returns_up_def example_dates_def pad4_def pad2_def digit_def round_half_even_def
          b64_values)
  have f: "symbol_failure example_frame ''GOOGL'' = Some NotInData"
    "symbol_failure example_frame ''TSLA'' = Some (OnlyMonths 10)"
    "symbol_failure example_frame ''NVDA'' = Some (FailedWith TypeError)"
    by (simp_all add: symbol_failure_def getitem_def present_def example_frame_def
          example_index_def short_history_def no_numbers_def)
  have t: "''GOOGL'' \<in> set ticker_list" "''TSLA'' \<in> set ticker_list" "''NVDA'' \<in> set ticker_list"
    by (simp_all add: ticker_list_def TICKERS_def)
  from C8_symbol_failures_recoverable[OF ne spy, of example_library "(2024, 3, 5)"]
  obtain d where c8: "exit_code (main example_library example_frame (2024, 3, 5)) = 0"
    "data (main example_library example_frame (2024, 3, 5)) = Some d"
    "map fst (tickers d) = filter (\<lambda>t. symbol_failure example_frame t = None) ticker_list"
    "\<forall>t \<in> set ticker_list. \<forall>m. symbol_failure example_frame t = Some m \<longrightarrow>
       t \<notin> fst ` set (tickers d) \<and>
       (\<forall>k \<in> fst ` set (correlations d). \<forall>a. k \<noteq> t @ '','' @ a \<and> k \<noteq> a @ '','' @ t) \<and>
       (\<exists>pre post. stdout (main example_library example_frame (2024, 3, 5)) =
          pre @ [Symbol t, m] @ post)"
    by blast
  from c8(2) example_data have d: "d = example_document" by simp
  have w: "written (main example_library example_frame (2024, 3, 5)) =
     Some (example_output ''2024-03-05'')"
    using example_written[of "(2024, 3, 5)"] by (simp only: example_stamps)
  have k: "filter (\<lambda>t. symbol_failure example_frame t = None) ticker_list = [''AAPL'', ''MSFT'']"
    using c8(3) by (simp add: d example_document_def)
  note g = bspec[OF c8(4) t(1), rule_format, OF f(1), unfolded d]
  note h = bspec[OF c8(4) t(2), rule_format, OF f(2), unfolded d]
  note i = bspec[OF c8(4) t(3), rule_format, OF f(3), unfolded d]
  show ?thesis
    by (intro conjI)
       (rule ne spy f c8(1) example_data w k conjunct1[OF g] conjunct1[OF h] conjunct1[OF i]
          conjunct2[OF conjunct2[OF g]] conjunct2[OF conjunct2[OF h]]
          conjunct2[OF conjunct2[OF i]])+
qed

text \<open>Claim C9 on two runs on \<open>example_frame\<close>, on different days.\<close>

theorem C9_same_dataset_same_output_witness:
  "written (main example_library example_frame (2024, 3, 5)) =
     Some (example_output ''2024-03-05'') \<and>
   written (main example_library example_frame (2025, 2, 7)) =
     Some (example_output ''2025-02-07'') \<and>
   length (example_output ''2024-03-05'') = 1377 \<and>
   data (main example_library example_frame (2024, 3, 5)) = Some example_document \<and>
   data (main example_library example_frame (2025, 2, 7)) =
     Some (example_document\<lparr>generated := ''2025-02-07''\<rparr>) \<and>
   document_rest example_repr example_document = example_rest \<and>
   example_output ''2024-03-05'' = json_prefix @ isoformat10 (2024, 3, 5) @ example_rest \<and>
   example_output ''2025-02-07'' = json_prefix @ isoformat10 (2025, 2, 7) @ example_rest"
proof -
  have a: "written (main example_library example_frame (2024, 3, 5)) =
     Some (example_output ''2024-03-05'')"
    using example_written[of "(2024, 3, 5)"] by (simp only: example_stamps)
  have b: "written (main example_library example_frame (2025, 2, 7)) =
     Some (example_output ''2025-02-07'')"
    using example_written[of "(2025, 2, 7)"] by (simp only: example_stamps)
  have c: "length (example_output ''2024-03-05'') = 1377"
    by (simp add: example_output_def json_prefix_def example_rest_def)
  from C9_same_dataset_same_output[OF a b] obtain d rest where
    d: "data (main example_library example_frame (2024, 3, 5)) = Some d"
       "data (main example_library example_frame (2025, 2, 7)) =
          Some (d\<lparr>generated := isoformat10 (2025, 2, 7)\<rparr>)"
    and r: "rest = document_rest (float_repr example_library) d"
       "example_output ''2024-03-05'' = json_prefix @ isoformat10 (2024, 3, 5) @ rest"
       "example_output ''2025-02-07'' = json_prefix @ isoformat10 (2025, 2, 7) @ rest"
    by blast
  from d(1) example_data have e: "d = example_document" by simp
  have f: "rest = example_rest"
    using r(2) unfolding example_output_def example_stamps by simp
  from r(1) have g: "document_rest example_repr example_document = example_rest"
    by (simp add: e f example_library_def)
  from d(2) have h: "data (main example_library example_frame (2025, 2, 7)) =
     Some (example_document\<lparr>generated := ''2025-02-07''\<rparr>)"
    by (simp only: e example_stamps)
  show ?thesis
    by (intro conjI) (rule a b c example_data h g r(2)[unfolded f] r(3)[unfolded f])+
qed

text \<open>Claim C10 on MSFT in \<open>example_frame\<close>.\<close>

theorem C10_dates_label_returns_witness:
  "data (main example_library example_frame (2024, 3, 5)) = Some example_document \<and>
   (''MSFT'', example_dates, map snd returns_down) \<in> set (retained example_document) \<and>
   length example_dates = length (map snd returns_down) \<and>
   (\<exists>col. close_col example_frame ''MSFT'' = Inr col \<and>
      zip example_dates (map snd returns_down) =
        map (\<lambda>(p, r). (strftime_ym p, py_round 4 r)) (returns_of (dropna col)))"
proof -
  have h: "(''MSFT'', example_dates, map snd returns_down) \<in> set (retained example_document)"
    by (simp add: retained_def example_document_def)
  from C10_dates_label_returns[OF example_data h] example_data h show ?thesis by blast
qed

end
